theory Spec2Isabelle
  imports Main
begin

section \<open>Python values, exceptions and outcomes\<close>

text \<open>
  The program is \<^verbatim>\<open>youtube_downloader.py\<close>. A Python \<^verbatim>\<open>str\<close> is modelled as a
  \<^typ>\<open>string\<close>: a list of characters, each character a code point below 256 (ASCII and
  Latin-1). Code points above 255 are outside the model.

  An exception is modelled by its class. \<^verbatim>\<open>KeyboardInterrupt\<close> and \<^verbatim>\<open>SystemExit\<close>
  derive from \<^verbatim>\<open>BaseException\<close> only, so \<^verbatim>\<open>except Exception\<close> does not catch them;
  a bare \<^verbatim>\<open>except:\<close> catches everything. \<open>DownloadError\<close> stands for the exceptions
  of the extraction library (all of them subclasses of \<^verbatim>\<open>Exception\<close>), with their message.
\<close>

datatype exc =
    ValueError | TypeError | KeyError | AttributeError | OSError | EOFError
  | DownloadError string
  | KeyboardInterrupt | SystemExit

fun is_Exception :: "exc \<Rightarrow> bool" where
  "is_Exception KeyboardInterrupt = False"
| "is_Exception SystemExit = False"
| "is_Exception _ = True"

datatype 'a outcome = Returned 'a | Raised exc

definition bind :: "'a outcome \<Rightarrow> ('a \<Rightarrow> 'b outcome) \<Rightarrow> 'b outcome" where
  "bind m f = (case m of Raised e \<Rightarrow> Raised e | Returned v \<Rightarrow> f v)"

text \<open>The values the program's dictionaries hold: \<^verbatim>\<open>None\<close> or a \<^verbatim>\<open>str\<close>.\<close>

datatype pyval = PyNone | PyStr string

section \<open>String operations of Python used by the program\<close>

text \<open>\<^verbatim>\<open>s.startswith(p)\<close>\<close>

fun startswith :: "string \<Rightarrow> string \<Rightarrow> bool" where
  "startswith s [] = True"
| "startswith [] (p # ps) = False"
| "startswith (c # cs) (p # ps) = (c = p \<and> startswith cs ps)"

text \<open>\<^verbatim>\<open>sub in s\<close> for two strings: \<open>sub\<close> occurs in \<open>s\<close> as a contiguous substring.\<close>

fun py_in :: "string \<Rightarrow> string \<Rightarrow> bool" where
  "py_in sub [] = (sub = [])"
| "py_in sub (c # cs) = (startswith (c # cs) sub \<or> py_in sub cs)"

text \<open>\<^verbatim>\<open>s.replace(old, '')\<close> for a one-character \<open>old\<close>.\<close>

definition remove_char :: "char \<Rightarrow> string \<Rightarrow> string" where
  "remove_char old s = filter (\<lambda>c. c \<noteq> old) s"

text \<open>\<^verbatim>\<open>s.split(sep)\<close> for a one-character \<open>sep\<close>: never an empty list.\<close>

fun py_split :: "char \<Rightarrow> string \<Rightarrow> string list" where
  "py_split sep [] = [[]]"
| "py_split sep (c # cs) =
     (if c = sep then [] # py_split sep cs
      else (case py_split sep cs of
              [] \<Rightarrow> [[c]]
            | p # ps \<Rightarrow> (c # p) # ps))"

text \<open>
  \<^verbatim>\<open>s.lower()\<close> on code points below 256: the ASCII capitals and the Latin-1 capitals
  (\<open>0xC0\<close> to \<open>0xDE\<close>, without the multiplication sign \<open>0xD7\<close>) move up by 32.
\<close>

definition lower_char :: "char \<Rightarrow> char" where
  "lower_char c =
     (let n = (of_char c :: nat) in
      if (65 \<le> n \<and> n \<le> 90) \<or> (192 \<le> n \<and> n \<le> 222 \<and> n \<noteq> 215)
      then char_of (n + 32) else c)"

definition lower :: "string \<Rightarrow> string" where
  "lower s = map lower_char s"

text \<open>
  \<^verbatim>\<open>s.isdigit()\<close>: the string is not empty and every character is a digit. Below 256
  the digits are \<open>0\<close> to \<open>9\<close> and the superscripts two, three and one (\<open>0xB2\<close>, \<open>0xB3\<close>,
  \<open>0xB9\<close>), which \<^verbatim>\<open>int\<close> does not accept.
\<close>

definition is_decimal :: "char \<Rightarrow> bool" where
  "is_decimal c = (c \<in> set ''0123456789'')"

definition is_digit_char :: "char \<Rightarrow> bool" where
  "is_digit_char c = (is_decimal c \<or> c \<in> set [CHR 0xB2, CHR 0xB3, CHR 0xB9])"

definition isdigit :: "string \<Rightarrow> bool" where
  "isdigit s = (s \<noteq> [] \<and> list_all is_digit_char s)"

section \<open>Conversions between \<^verbatim>\<open>str\<close> and \<^verbatim>\<open>int\<close>\<close>

text \<open>
  \<^verbatim>\<open>int(s)\<close> for a string, base 10: white space around the literal is skipped (the ASCII
  white space \<open>0x09\<close> to \<open>0x0D\<close> and the blank, and the non-ASCII spaces \<open>0x85\<close>,
  \<open>0xA0\<close>), then an optional sign, then decimal digits with single underscores allowed
  between two digits. Anything else raises \<^verbatim>\<open>ValueError\<close>.

  CPython limits the number of digits of a decimal conversion
  (\<^verbatim>\<open>sys.get_int_max_str_digits()\<close>, 4300 by default, 0 for no limit): more digits raise
  \<^verbatim>\<open>ValueError\<close>. The limit is the parameter \<open>lim\<close> of every function that converts.
\<close>

definition int_space :: "char \<Rightarrow> bool" where
  "int_space c = (c \<in> set [CHR 0x09, CHR 0x0A, CHR 0x0B, CHR 0x0C, CHR 0x0D, CHR '' '',
                            CHR 0x85, CHR 0xA0])"

definition strip_int_space :: "string \<Rightarrow> string" where
  "strip_int_space s = rev (dropWhile int_space (rev (dropWhile int_space s)))"

fun digits_underscores :: "string \<Rightarrow> bool" where
  "digits_underscores [] = False"
| "digits_underscores [c] = is_decimal c"
| "digits_underscores (c # d # r) =
     (is_decimal c \<and> (if d = CHR ''_'' then digits_underscores r else digits_underscores (d # r)))"

definition digit_val :: "char \<Rightarrow> nat" where
  "digit_val c = of_char c - 48"

definition nat_of_digits :: "string \<Rightarrow> nat" where
  "nat_of_digits ds = foldl (\<lambda>acc c. acc * 10 + digit_val c) 0 ds"

definition over_limit :: "nat \<Rightarrow> nat \<Rightarrow> bool" where
  "over_limit lim ndigits = (0 < lim \<and> lim < ndigits)"

definition py_int :: "nat \<Rightarrow> string \<Rightarrow> int outcome" where
  "py_int lim s =
     (let t = strip_int_space s;
          (negative, body) =
             (case t of
                [] \<Rightarrow> (False, [])
              | c # r \<Rightarrow> if c = CHR ''+'' then (False, r)
                         else if c = CHR ''-'' then (True, r)
                         else (False, t));
          ds = remove_char (CHR ''_'') body
      in if \<not> digits_underscores body then Raised ValueError
         else if over_limit lim (length ds) then Raised ValueError
         else Returned (if negative then - int (nat_of_digits ds) else int (nat_of_digits ds)))"

text \<open>\<^verbatim>\<open>int(v)\<close> for a dictionary value: \<^verbatim>\<open>int(None)\<close> raises \<^verbatim>\<open>TypeError\<close>.\<close>

definition py_int_val :: "nat \<Rightarrow> pyval \<Rightarrow> int outcome" where
  "py_int_val lim v = (case v of PyNone \<Rightarrow> Raised TypeError | PyStr s \<Rightarrow> py_int lim s)"

text \<open>
  \<^verbatim>\<open>str(n)\<close> for an integer, as the f-string \<^verbatim>\<open>f"{n}"\<close> formats it: the decimal digits,
  after a minus sign when negative. More digits than the limit raise \<^verbatim>\<open>ValueError\<close>.
\<close>

definition digit_char :: "nat \<Rightarrow> char" where
  "digit_char d = ''0123456789'' ! d"

fun digits_of_nat :: "nat \<Rightarrow> string" where
  "digits_of_nat n =
     (if n < 10 then [digit_char n] else digits_of_nat (n div 10) @ [digit_char (n mod 10)])"

declare digits_of_nat.simps [simp del]

definition py_str_int :: "nat \<Rightarrow> int \<Rightarrow> string outcome" where
  "py_str_int lim n =
     (let ds = digits_of_nat (nat \<bar>n\<bar>)
      in if over_limit lim (length ds) then Raised ValueError
         else Returned (if n < 0 then CHR ''-'' # ds else ds))"

section \<open>URL classification and validation\<close>

text \<open>
  \<^verbatim>\<open>urlparse\<close> is the standard library's. \<open>validate_url\<close> takes it as a parameter: a
  function from the URL to the parse result, of which only \<open>netloc\<close> is read, or to the
  exception it raises.
\<close>

record parse_result =
  netloc :: string

definition validate_url :: "(string \<Rightarrow> parse_result outcome) \<Rightarrow> string \<Rightarrow> bool outcome" where
  "validate_url urlparse url =
     (case bind (urlparse url)
             (\<lambda>parsed. Returned (py_in ''youtube.com'' (netloc parsed)
                                  \<or> py_in ''youtu.be'' (netloc parsed))) of
        Returned b \<Rightarrow> Returned b
      | Raised e \<Rightarrow> Returned False)"

definition is_playlist :: "string \<Rightarrow> bool" where
  "is_playlist url = (py_in ''playlist'' url \<or> py_in ''&list='' url)"

text \<open>
  The standard library's \<^verbatim>\<open>urlsplit\<close> (CPython 3.11), as far as it computes \<open>netloc\<close>:
  leading C0 control characters and blanks are stripped, tab, carriage return and line feed
  are removed, a scheme is split off at the first colon, and after \<open>//\<close> the netloc runs to
  the first of \<open>/\<close>, \<open>?\<close>, \<open>#\<close>. An unmatched square bracket in the netloc raises
  \<^verbatim>\<open>ValueError\<close>; a bracketed host is checked by \<open>check_bracketed_host\<close>, a parameter
  (it parses IP addresses). The NFKC check of the netloc never raises on code points below
  256.
\<close>

definition scheme_chars :: string where
  "scheme_chars = ''abcdefghijklmnopqrstuvwxyz'' @ ''ABCDEFGHIJKLMNOPQRSTUVWXYZ''
                  @ ''0123456789'' @ ''+-.''"

definition ascii_alpha :: "char \<Rightarrow> bool" where
  "ascii_alpha c = (c \<in> set (take 52 scheme_chars))"

definition strip_scheme :: "string \<Rightarrow> string" where
  "strip_scheme url =
     (let pre = takeWhile (\<lambda>c. c \<noteq> CHR '':'') url
      in if CHR '':'' \<in> set url \<and> pre \<noteq> [] \<and> ascii_alpha (hd pre)
            \<and> list_all (\<lambda>c. c \<in> set scheme_chars) pre
         then drop (length pre + 1) url else url)"

definition splitnetloc :: "string \<Rightarrow> string" where
  "splitnetloc url = takeWhile (\<lambda>c. c \<notin> set ''/?#'') (drop 2 url)"

definition bracketed_host :: "string \<Rightarrow> string" where
  "bracketed_host nl =
     takeWhile (\<lambda>c. c \<noteq> CHR '']'') (drop 1 (dropWhile (\<lambda>c. c \<noteq> CHR ''['') nl))"

definition urlsplit_netloc :: "(string \<Rightarrow> exc option) \<Rightarrow> string \<Rightarrow> string outcome" where
  "urlsplit_netloc check_bracketed_host url0 =
     (let url1 = dropWhile (\<lambda>c. (of_char c :: nat) \<le> 32) url0;
          url2 = filter (\<lambda>c. c \<notin> set [CHR 0x09, CHR 0x0D, CHR 0x0A]) url1;
          url = strip_scheme url2
      in if take 2 url = ''//'' then
           (let nl = splitnetloc url
            in if (CHR ''['' \<in> set nl \<and> CHR '']'' \<notin> set nl)
                  \<or> (CHR '']'' \<in> set nl \<and> CHR ''['' \<notin> set nl)
               then Raised ValueError
               else if CHR ''['' \<in> set nl \<and> CHR '']'' \<in> set nl
               then (case check_bracketed_host (bracketed_host nl) of
                       Some e \<Rightarrow> Raised e
                     | None \<Rightarrow> Returned nl)
               else Returned nl)
         else Returned [])"

definition urllib_urlparse :: "(string \<Rightarrow> exc option) \<Rightarrow> string \<Rightarrow> parse_result outcome" where
  "urllib_urlparse check_bracketed_host url =
     bind (urlsplit_netloc check_bracketed_host url) (\<lambda>nl. Returned \<lparr>netloc = nl\<rparr>)"

section \<open>The format expression\<close>

definition get_format_string :: "string \<Rightarrow> string" where
  "get_format_string quality =
     (if quality = ''best'' then ''bestvideo*+bestaudio/best''
      else (let height = butlast quality
            in ''bestvideo[height<='' @ height @ '']+bestaudio/best[height<='' @ height @ '']''))"

section \<open>Preferences and the preference collector\<close>

text \<open>
  The preferences are the dictionary \<^verbatim>\<open>inquirer.prompt\<close> returns: the questions' names in
  the order they were asked, each with its answer. \<open>dict_get\<close> is \<^verbatim>\<open>d.get(k)\<close>, where
  \<open>None\<close> stands for a missing key as well as for the value \<^verbatim>\<open>None\<close>; \<open>dict_item\<close> is
  \<^verbatim>\<open>d[k]\<close>, which raises \<^verbatim>\<open>KeyError\<close> on a missing key.
\<close>

type_synonym preferences = "(string \<times> pyval) list"

definition dict_get :: "preferences \<Rightarrow> string \<Rightarrow> string option" where
  "dict_get d k = (case map_of d k of Some (PyStr s) \<Rightarrow> Some s | _ \<Rightarrow> None)"

definition dict_item :: "preferences \<Rightarrow> string \<Rightarrow> pyval outcome" where
  "dict_item d k = (case map_of d k of None \<Rightarrow> Raised KeyError | Some v \<Rightarrow> Returned v)"

text \<open>
  A question of \<^verbatim>\<open>inquirer\<close>: \<open>Text\<close> has a name, a validator of the typed text and an
  \<open>ignore\<close> predicate over the answers given so far; \<open>List\<close> has a name, the choices and an
  \<open>ignore\<close> predicate. The messages and the pre-filled default of a \<open>Text\<close> are display only:
  the user may type any text. \<^verbatim>\<open>inquirer.prompt\<close> asks the questions in order. An ignored
  question is answered \<^verbatim>\<open>None\<close>; a \<open>Text\<close> is asked again until its validator accepts the
  text; a \<open>List\<close> is answered by one of its choices.
\<close>

datatype question =
    Text string "preferences \<Rightarrow> string \<Rightarrow> bool" "preferences \<Rightarrow> bool"
  | List string "string list" "preferences \<Rightarrow> bool"

fun question_name :: "question \<Rightarrow> string" where
  "question_name (Text n v i) = n"
| "question_name (List n cs i) = n"

fun answers_question :: "question \<Rightarrow> preferences \<Rightarrow> pyval \<Rightarrow> bool" where
  "answers_question (Text n validate ignore) answers v =
     (if ignore answers then v = PyNone
      else (case v of PyNone \<Rightarrow> False | PyStr s \<Rightarrow> validate answers s))"
| "answers_question (List n choices ignore) answers v =
     (if ignore answers then v = PyNone
      else (case v of PyNone \<Rightarrow> False | PyStr s \<Rightarrow> s \<in> set choices))"

text \<open>
  \<open>prompt questions answers rest\<close>: after the answers \<open>answers\<close>, the remaining questions
  can be answered by exactly the entries \<open>rest\<close>.
\<close>

fun prompt :: "question list \<Rightarrow> preferences \<Rightarrow> preferences \<Rightarrow> bool" where
  "prompt [] answers rest = (rest = [])"
| "prompt (q # qs) answers [] = False"
| "prompt (q # qs) answers ((k, v) # rest) =
     (k = question_name q \<and> answers_question q answers v \<and> prompt qs (answers @ [(k, v)]) rest)"

definition always :: "preferences \<Rightarrow> string \<Rightarrow> bool" where
  "always answers x = True"

definition never :: "preferences \<Rightarrow> bool" where
  "never answers = False"

text \<open>
  The questions of \<open>get_user_input\<close>. An \<open>ignore\<close> predicate reads an earlier answer
  \<^verbatim>\<open>x['playlist_options']\<close> or \<^verbatim>\<open>x['download_type']\<close>, which is always there when the
  predicate runs.
\<close>

definition questions :: "(string \<Rightarrow> parse_result outcome) \<Rightarrow> bool \<Rightarrow> question list" where
  "questions urlparse is_playlist_url =
     [Text ''url'' (\<lambda>_ x. validate_url urlparse x = Returned True) never,
      Text ''output_path'' always never]
     @ (if is_playlist_url then
          [List ''playlist_options'' [''Full playlist'', ''Select range'', ''Specific videos''] never,
           Text ''start_index'' (\<lambda>_ x. isdigit x)
             (\<lambda>x. dict_get x ''playlist_options'' \<notin> set [Some ''Select range'']),
           Text ''end_index'' (\<lambda>_ x. isdigit x)
             (\<lambda>x. dict_get x ''playlist_options'' \<notin> set [Some ''Select range'']),
           Text ''video_indices'' always
             (\<lambda>x. dict_get x ''playlist_options'' \<notin> set [Some ''Specific videos''])]
        else [])
     @ [List ''download_type'' [''Video with Audio'', ''Audio Only''] never,
        List ''quality'' [''best'', ''1080p'', ''720p'', ''480p'', ''360p'']
          (\<lambda>x. dict_get x ''download_type'' = Some ''Audio Only''),
        List ''audio_format'' [''mp3'', ''wav'', ''m4a'']
          (\<lambda>x. dict_get x ''download_type'' = Some ''Video with Audio'')]"

text \<open>\<open>get_user_input urlparse is_playlist_url p\<close>: the call can return the preferences \<open>p\<close>.\<close>

definition get_user_input :: "(string \<Rightarrow> parse_result outcome) \<Rightarrow> bool \<Rightarrow> preferences \<Rightarrow> bool" where
  "get_user_input urlparse is_playlist_url p = prompt (questions urlparse is_playlist_url) [] p"

section \<open>The selection resolver\<close>

definition str_replace_blank :: "pyval \<Rightarrow> string outcome" where
  "str_replace_blank v =
     (case v of PyNone \<Rightarrow> Raised AttributeError | PyStr s \<Rightarrow> Returned (remove_char (CHR '' '') s))"

definition get_playlist_config :: "nat \<Rightarrow> preferences \<Rightarrow> string option outcome" where
  "get_playlist_config lim preferences =
     (if dict_get preferences ''playlist_options'' = Some ''Select range'' then
        bind (bind (dict_item preferences ''start_index'') (py_int_val lim)) (\<lambda>start.
        bind (bind (dict_item preferences ''end_index'') (py_int_val lim)) (\<lambda>end.
        bind (py_str_int lim start) (\<lambda>s.
        bind (py_str_int lim end) (\<lambda>e.
        Returned (Some (s @ ''-'' @ e))))))
      else if dict_get preferences ''playlist_options'' = Some ''Specific videos'' then
        bind (bind (dict_item preferences ''video_indices'') str_replace_blank) (\<lambda>playlist_items.
        Returned (Some playlist_items))
      else Returned None)"

section \<open>The download orchestrator\<close>

subsection \<open>The configuration, the library and the trace\<close>

text \<open>
  The configuration dictionary \<open>ydl_opts\<close>. The entry \<^verbatim>\<open>progress_hooks\<close> (one logging
  callback, run by the library inside its download call) is not listed.
\<close>

record postprocessor =
  key :: string
  preferredcodec :: pyval
  preferredquality :: string

record ydl_opts =
  format :: string
  outtmpl :: string
  ignoreerrors :: bool
  no_warnings :: bool
  quiet :: bool
  postprocessors :: "postprocessor list"
  playliststart :: "int option"
  playlistend :: "int option"
  playlist_items :: "string option"

text \<open>
  What the probe returns, as far as the program reads it: whether the key \<^verbatim>\<open>entries\<close> is
  there (then a list, of which the length is read), the title (missing, \<^verbatim>\<open>None\<close> or a
  string) and the duration (missing, \<^verbatim>\<open>None\<close>, an integer or a float).
\<close>

datatype duration = Duration_None | Duration_int int | Duration_float

record info =
  entries :: "nat option"
  title :: "pyval option"
  duration :: "duration option"

text \<open>
  The world outside the program: the file system, the extraction library and the user at
  the confirmation prompt. Each operation returns or raises. \<open>extract_info\<close> returns
  \<^verbatim>\<open>None\<close> when the library swallows an error (\<^verbatim>\<open>ignoreerrors\<close> is set). \<open>ydl_open\<close> is the
  constructor \<^verbatim>\<open>YoutubeDL(ydl_opts)\<close> with \<^verbatim>\<open>__enter__\<close>, \<open>ydl_close\<close> is \<^verbatim>\<open>__exit__\<close>.
\<close>

record world =
  mkdir :: "string \<Rightarrow> exc option"
  ydl_open :: "ydl_opts \<Rightarrow> exc option"
  extract_info :: "ydl_opts \<Rightarrow> pyval \<Rightarrow> info option outcome"
  user_input :: "string outcome"
  download :: "ydl_opts \<Rightarrow> pyval list \<Rightarrow> exc option"
  ydl_close :: "exc option"

text \<open>The log records, by their message, and the events of a run in the order they happen.\<close>

datatype log_record =
    Info_Starting_download_from pyval
  | Info_Playlist pyval
  | Info_Number_of_videos nat
  | Info_Downloading_videos string
  | Info_Title pyval
  | Info_Duration int int
  | Info_Download_cancelled_by_user
  | Info_Download_completed_successfully
  | Error_An_error_occurred exc

datatype event =
    Mkdir string
  | Log log_record
  | Open ydl_opts
  | Extract_info pyval
  | Input
  | Download "pyval list"
  | Close

text \<open>A run: the events that happened, and how it ended.\<close>

type_synonym 'a run = "event list \<times> 'a outcome"

definition result :: "'a \<Rightarrow> 'a run" where
  "result v = ([], Returned v)"

definition lift :: "'a outcome \<Rightarrow> 'a run" where
  "lift r = ([], r)"

definition emit :: "event \<Rightarrow> unit run" where
  "emit ev = ([ev], Returned ())"

definition call :: "event \<Rightarrow> exc option \<Rightarrow> unit run" where
  "call ev r = ([ev], case r of Some e \<Rightarrow> Raised e | None \<Rightarrow> Returned ())"

definition seq :: "'a run \<Rightarrow> ('a \<Rightarrow> 'b run) \<Rightarrow> 'b run" where
  "seq m f =
     (case m of
        (t, Raised e) \<Rightarrow> (t, Raised e)
      | (t, Returned v) \<Rightarrow> (case f v of (t', r) \<Rightarrow> (t @ t', r)))"

text \<open>\<^verbatim>\<open>try: body except Exception as e: handler\<close>\<close>

definition try_except_Exception :: "'a run \<Rightarrow> (exc \<Rightarrow> 'a run) \<Rightarrow> 'a run" where
  "try_except_Exception body handler =
     (case body of
        (t, Raised e) \<Rightarrow>
          if is_Exception e then (case handler e of (t', r) \<Rightarrow> (t @ t', r)) else (t, Raised e)
      | (t, Returned v) \<Rightarrow> (t, Returned v))"

text \<open>
  \<^verbatim>\<open>with YoutubeDL(ydl_opts) as ydl: body\<close>. The exit runs however the body ends, and does
  not suppress an exception; an exception of the exit itself replaces the body's ending.
\<close>

definition with_YoutubeDL :: "world \<Rightarrow> ydl_opts \<Rightarrow> 'a run \<Rightarrow> 'a run" where
  "with_YoutubeDL w opts body =
     seq (call (Open opts) (ydl_open w opts)) (\<lambda>_.
       case body of (t, r) \<Rightarrow>
         (t @ [Close], case ydl_close w of Some e \<Rightarrow> Raised e | None \<Rightarrow> r))"

subsection \<open>\<open>download_videos\<close>\<close>

text \<open>\<^verbatim>\<open>Path(output_path).mkdir(parents=True, exist_ok=True)\<close>\<close>

definition make_output_dir :: "world \<Rightarrow> pyval \<Rightarrow> string run" where
  "make_output_dir w output_path =
     (case output_path of
        PyNone \<Rightarrow> lift (Raised TypeError)
      | PyStr p \<Rightarrow> seq (call (Mkdir p) (mkdir w p)) (\<lambda>_. result p))"

definition initial_opts :: "string \<Rightarrow> bool \<Rightarrow> pyval \<Rightarrow> ydl_opts" where
  "initial_opts output_path audio_only audio_format =
     \<lparr>format = (if audio_only then ''bestaudio/best'' else ''bestvideo+bestaudio/best''),
      outtmpl = output_path @ ''/%(title)s.%(ext)s'',
      ignoreerrors = True,
      no_warnings = False,
      quiet = False,
      postprocessors =
        (if audio_only
         then [\<lparr>key = ''FFmpegExtractAudio'', preferredcodec = audio_format,
                preferredquality = ''192''\<rparr>]
         else []),
      playliststart = None,
      playlistend = None,
      playlist_items = None\<rparr>"

text \<open>
  \<^verbatim>\<open>start, end = map(int, playlist_items.split('-'))\<close>: the parts are converted one by
  one as the unpacking asks for them, a third one included before the unpacking fails with
  \<^verbatim>\<open>ValueError\<close>.
\<close>

definition unpack_start_end :: "nat \<Rightarrow> string list \<Rightarrow> (int \<times> int) outcome" where
  "unpack_start_end lim parts =
     (case parts of
        [] \<Rightarrow> Raised ValueError
      | [a] \<Rightarrow> bind (py_int lim a) (\<lambda>_. Raised ValueError)
      | a # b # rest \<Rightarrow>
          bind (py_int lim a) (\<lambda>start.
          bind (py_int lim b) (\<lambda>end.
            case rest of
              [] \<Rightarrow> Returned (start, end)
            | c # _ \<Rightarrow> bind (py_int lim c) (\<lambda>_. Raised ValueError))))"

definition truthy :: "string option \<Rightarrow> bool" where
  "truthy v = (case v of None \<Rightarrow> False | Some s \<Rightarrow> s \<noteq> [])"

definition set_playlist_items :: "nat \<Rightarrow> string option \<Rightarrow> ydl_opts \<Rightarrow> ydl_opts outcome" where
  "set_playlist_items lim items opts =
     (if truthy items then
        (if py_in ''-'' (the items) then
           bind (unpack_start_end lim (py_split (CHR ''-'') (the items))) (\<lambda>(start, end).
             Returned (opts\<lparr>playliststart := Some start, playlistend := Some end\<rparr>))
         else Returned (opts\<lparr>playlist_items := items\<rparr>))
      else Returned opts)"

text \<open>The lines before the \<^verbatim>\<open>try\<close>: the directory, the configuration, the selection.\<close>

definition prepare :: "nat \<Rightarrow> world \<Rightarrow> pyval \<Rightarrow> bool \<Rightarrow> pyval \<Rightarrow> string option \<Rightarrow> ydl_opts run" where
  "prepare lim w output_path audio_only audio_format items =
     seq (make_output_dir w output_path) (\<lambda>p.
       lift (set_playlist_items lim items (initial_opts p audio_only audio_format)))"

definition get_default :: "'a option \<Rightarrow> 'a \<Rightarrow> 'a" where
  "get_default v d = (case v of None \<Rightarrow> d | Some x \<Rightarrow> x)"

text \<open>
  \<^verbatim>\<open>f"{d//60}:{d%60:02d}"\<close> for \<^verbatim>\<open>d = info.get('duration', 0)\<close>: \<^verbatim>\<open>None // 60\<close> raises
  \<^verbatim>\<open>TypeError\<close>, and the format code \<^verbatim>\<open>d\<close> raises \<^verbatim>\<open>ValueError\<close> on a float.
\<close>

definition minutes_seconds :: "duration \<Rightarrow> (int \<times> int) outcome" where
  "minutes_seconds d =
     (case d of
        Duration_None \<Rightarrow> Raised TypeError
      | Duration_float \<Rightarrow> Raised ValueError
      | Duration_int n \<Rightarrow> Returned (n div 60, n mod 60))"

definition summary :: "info option \<Rightarrow> string option \<Rightarrow> unit run" where
  "summary probed items =
     (case probed of
        None \<Rightarrow> lift (Raised TypeError)
      | Some i \<Rightarrow>
          (case entries i of
             Some n \<Rightarrow>
               seq (emit (Log (Info_Playlist (get_default (title i) (PyStr ''Unknown Playlist''))))) (\<lambda>_.
               seq (emit (Log (Info_Number_of_videos n))) (\<lambda>_.
               if truthy items then emit (Log (Info_Downloading_videos (the items))) else result ()))
           | None \<Rightarrow>
               seq (emit (Log (Info_Title (get_default (title i) (PyStr ''Unknown Title''))))) (\<lambda>_.
               seq (lift (minutes_seconds (get_default (duration i) (Duration_int 0)))) (\<lambda>(m, s).
               emit (Log (Info_Duration m s))))))"

text \<open>
  The body of the \<^verbatim>\<open>with\<close>: \<open>Some False\<close> is the \<^verbatim>\<open>return False\<close> of the cancelled
  download, \<open>None\<close> is the end of the block.
\<close>

definition probe_confirm_download :: "world \<Rightarrow> ydl_opts \<Rightarrow> pyval \<Rightarrow> string option \<Rightarrow> bool option run" where
  "probe_confirm_download w opts url items =
     seq ([Extract_info url], extract_info w opts url) (\<lambda>probed.
     seq (summary probed items) (\<lambda>_.
     seq ([Input], user_input w) (\<lambda>answer.
       if lower answer \<noteq> ''y''
       then seq (emit (Log Info_Download_cancelled_by_user)) (\<lambda>_. result (Some False))
       else seq (call (Download [url]) (download w opts [url])) (\<lambda>_. result None))))"

definition attempt :: "world \<Rightarrow> ydl_opts \<Rightarrow> pyval \<Rightarrow> string option \<Rightarrow> bool run" where
  "attempt w opts url items =
     try_except_Exception
       (seq (emit (Log (Info_Starting_download_from url))) (\<lambda>_.
        seq (with_YoutubeDL w opts (probe_confirm_download w opts url items)) (\<lambda>returned.
          case returned of
            Some b \<Rightarrow> result b
          | None \<Rightarrow> seq (emit (Log Info_Download_completed_successfully)) (\<lambda>_. result True))))
       (\<lambda>e. seq (emit (Log (Error_An_error_occurred e))) (\<lambda>_. result False))"

text \<open>
  \<open>download_videos\<close>. The call of \<open>setup_logger\<close> configures the logging module and is
  no event of the run; the records logged afterwards are. The parameter \<open>quality\<close> is not
  read.
\<close>

definition download_videos ::
  "nat \<Rightarrow> world \<Rightarrow> pyval \<Rightarrow> pyval \<Rightarrow> pyval \<Rightarrow> bool \<Rightarrow> pyval \<Rightarrow> string option \<Rightarrow> bool run" where
  "download_videos lim w url output_path quality audio_only audio_format items =
     seq (prepare lim w output_path audio_only audio_format items) (\<lambda>opts.
       attempt w opts url items)"

subsection \<open>One round of \<open>main\<close>\<close>

text \<open>
  One round of the loop of \<open>main\<close>, from the URL typed first to the result of
  \<open>download_videos\<close>; \<open>preferences\<close> is what \<open>get_user_input\<close> returned.
\<close>

definition main_round :: "nat \<Rightarrow> world \<Rightarrow> string \<Rightarrow> preferences \<Rightarrow> bool run" where
  "main_round lim w url preferences =
     (let is_playlist_url = is_playlist url in
      seq (lift (dict_item preferences ''download_type'')) (\<lambda>download_type.
      let audio_only = (download_type = PyStr ''Audio Only'') in
      seq (lift (if \<not> audio_only then dict_item preferences ''quality''
                 else Returned (PyStr ''best''))) (\<lambda>quality.
      seq (lift (if audio_only then dict_item preferences ''audio_format''
                 else Returned (PyStr ''mp3''))) (\<lambda>audio_format.
      seq (lift (if is_playlist_url \<and> truthy (dict_get preferences ''playlist_options'')
                 then get_playlist_config lim preferences else Returned None)) (\<lambda>items.
      seq (lift (dict_item preferences ''url'')) (\<lambda>u.
      seq (lift (dict_item preferences ''output_path'')) (\<lambda>output_path.
        download_videos lim w u output_path quality audio_only audio_format items)))))))"

text \<open>How the \<^verbatim>\<open>with\<close> block ends when its body ends with \<open>r\<close>: the exit may raise.\<close>

definition closing :: "world \<Rightarrow> 'a outcome \<Rightarrow> 'a outcome" where
  "closing w r = (case ydl_close w of Some c \<Rightarrow> Raised c | None \<Rightarrow> r)"

text \<open>An operation of the world that raises, if anything, a subclass of \<^verbatim>\<open>Exception\<close>.\<close>

definition only_Exception :: "exc option \<Rightarrow> bool" where
  "only_Exception r = (case r of None \<Rightarrow> True | Some e \<Rightarrow> is_Exception e)"

section \<open>The invariant of the selection descriptor, as the specification words it\<close>

text \<open>
  The specification's data model gives the selection descriptor an invariant: the start of
  a range is at most its end when both are present, and the indices of an explicit list are
  positive integers. The two parts, stated on what \<open>download_videos\<close> reads from the
  descriptor: the start and end of the configuration, and the comma-separated tokens.
\<close>

definition spec_start_le_end :: "ydl_opts \<Rightarrow> bool" where
  "spec_start_le_end opts =
     (case (playliststart opts, playlistend opts) of
        (Some a, Some b) \<Rightarrow> a \<le> b
      | _ \<Rightarrow> True)"

definition spec_indices_positive :: "nat \<Rightarrow> string \<Rightarrow> bool" where
  "spec_indices_positive lim items =
     list_all (\<lambda>tok. case py_int lim tok of Returned n \<Rightarrow> 0 < n | Raised e \<Rightarrow> False)
       (py_split (CHR '','') items)"

section \<open>Example inputs\<close>

text \<open>
  Preferences the collector can return for a playlist URL: a range from 5 to 1; the index
  text \<open>0, x\<close>; the index text \<open>1-3,5\<close>. And for a single video: video with audio at 720p.
\<close>

definition prefs_range_5_1 :: preferences where
  "prefs_range_5_1 =
     [(''url'', PyStr ''https://www.youtube.com/playlist?list=PL1''),
      (''output_path'', PyStr ''downloads''),
      (''playlist_options'', PyStr ''Select range''),
      (''start_index'', PyStr ''5''), (''end_index'', PyStr ''1''), (''video_indices'', PyNone),
      (''download_type'', PyStr ''Video with Audio''), (''quality'', PyStr ''720p''),
      (''audio_format'', PyNone)]"

definition prefs_indices_0_x :: preferences where
  "prefs_indices_0_x =
     [(''url'', PyStr ''https://www.youtube.com/playlist?list=PL1''),
      (''output_path'', PyStr ''downloads''),
      (''playlist_options'', PyStr ''Specific videos''),
      (''start_index'', PyNone), (''end_index'', PyNone), (''video_indices'', PyStr ''0, x''),
      (''download_type'', PyStr ''Audio Only''), (''quality'', PyNone),
      (''audio_format'', PyStr ''mp3'')]"

definition prefs_indices_hyphen :: preferences where
  "prefs_indices_hyphen =
     [(''url'', PyStr ''https://www.youtube.com/playlist?list=PL1''),
      (''output_path'', PyStr ''downloads''),
      (''playlist_options'', PyStr ''Specific videos''),
      (''start_index'', PyNone), (''end_index'', PyNone), (''video_indices'', PyStr ''1-3,5''),
      (''download_type'', PyStr ''Video with Audio''), (''quality'', PyStr ''best''),
      (''audio_format'', PyNone)]"

definition prefs_video_720p :: preferences where
  "prefs_video_720p =
     [(''url'', PyStr ''https://www.youtube.com/watch?v=abc''),
      (''output_path'', PyStr ''downloads''),
      (''download_type'', PyStr ''Video with Audio''), (''quality'', PyStr ''720p''),
      (''audio_format'', PyNone)]"

text \<open>
  A world in which every operation succeeds: the probe returns a single video of 125
  seconds.
\<close>

definition video_info :: info where
  "video_info = \<lparr>entries = None, title = Some (PyStr ''Video''), duration = Some (Duration_int 125)\<rparr>"

definition world_ok :: "string \<Rightarrow> world" where
  "world_ok answer =
     \<lparr>mkdir = (\<lambda>p. None),
      ydl_open = (\<lambda>opts. None),
      extract_info = (\<lambda>opts url. Returned (Some video_info)),
      user_input = Returned answer,
      download = (\<lambda>opts urls. None),
      ydl_close = None\<rparr>"

text \<open>
  Two worlds in which the library fails: the probe raises, and the download raises after
  the user has confirmed.
\<close>

definition world_probe_fails :: world where
  "world_probe_fails =
     (world_ok ''y'')\<lparr>extract_info := (\<lambda>opts url. Raised (DownloadError ''Video unavailable''))\<rparr>"

definition world_download_fails :: world where
  "world_download_fails =
     (world_ok ''y'')\<lparr>download := (\<lambda>opts urls. Some (DownloadError ''Connection reset''))\<rparr>"

section \<open>Substrings\<close>

lemma startswith_iff: "startswith s p \<longleftrightarrow> (\<exists>post. s = p @ post)"
  by (induction s p rule: startswith.induct) auto

lemma py_in_iff: "py_in sub s \<longleftrightarrow> (\<exists>pre post. s = pre @ sub @ post)"
proof (induction s)
  case Nil
  then show ?case by auto
next
  case (Cons c cs)
  show ?case
  proof
    assume "py_in sub (c # cs)"
    then consider "startswith (c # cs) sub" | "py_in sub cs" by auto
    then show "\<exists>pre post. c # cs = pre @ sub @ post"
    proof cases
      case 1
      then obtain post where "c # cs = sub @ post" by (auto simp: startswith_iff)
      then have "c # cs = [] @ sub @ post" by simp
      then show ?thesis by blast
    next
      case 2
      then obtain pre post where "cs = pre @ sub @ post" using Cons.IH by auto
      then have "c # cs = (c # pre) @ sub @ post" by simp
      then show ?thesis by blast
    qed
  next
    assume "\<exists>pre post. c # cs = pre @ sub @ post"
    then obtain pre post where eq: "c # cs = pre @ sub @ post" by auto
    show "py_in sub (c # cs)"
    proof (cases pre)
      case Nil
      then have "startswith (c # cs) sub" using eq by (auto simp: startswith_iff)
      then show ?thesis by simp
    next
      case (Cons d pre')
      then have "cs = pre' @ sub @ post" using eq by simp
      then have "py_in sub cs" using Cons.IH by blast
      then show ?thesis by simp
    qed
  qed
qed

section \<open>The URL classifier and the URL validator\<close>

text \<open>
  Claim C6. For every URL string, \<open>is_playlist\<close> is true exactly when the string contains
  \<open>playlist\<close> or \<open>&list=\<close> as a substring, and false otherwise. It is a total function to
  the booleans: it has no failing case, whatever the string.
\<close>

theorem is_playlist_iff_marker:
  "is_playlist url =
     ((\<exists>pre post. url = pre @ ''playlist'' @ post) \<or> (\<exists>pre post. url = pre @ ''&list='' @ post))"
  by (simp only: is_playlist_def py_in_iff)

text \<open>
  Claim C8. Whatever \<^verbatim>\<open>urlparse\<close> does on the input, \<open>validate_url\<close> returns a boolean and
  raises nothing; when \<^verbatim>\<open>urlparse\<close> raises, it returns \<open>False\<close>.
\<close>

theorem validate_url_never_raises:
  "(\<exists>b. validate_url urlparse url = Returned b)
   \<and> (\<forall>e. urlparse url = Raised e \<longrightarrow> validate_url urlparse url = Returned False)"
  by (cases "urlparse url") (auto simp: validate_url_def bind_def)

lemma urllib_unmatched_bracket:
  "urllib_urlparse chk ''http://[youtube.com/watch'' = Raised ValueError"
  by (simp add: urllib_urlparse_def urlsplit_netloc_def bind_def strip_scheme_def scheme_chars_def
      ascii_alpha_def splitnetloc_def)

theorem validate_url_never_raises_witness:
  "validate_url (urllib_urlparse (\<lambda>h. None)) ''http://[youtube.com/watch'' = Returned False"
  using validate_url_never_raises [of "urllib_urlparse (\<lambda>h. None)" "''http://[youtube.com/watch''"]
        urllib_unmatched_bracket [of "\<lambda>h. None"]
  by simp

lemma urllib_notyoutube:
  "urllib_urlparse chk ''https://notyoutube.com/watch?v=1'' = Returned \<lparr>netloc = ''notyoutube.com''\<rparr>"
  by (simp add: urllib_urlparse_def urlsplit_netloc_def bind_def strip_scheme_def scheme_chars_def
      ascii_alpha_def splitnetloc_def)

text \<open>
  Claim C10. \<open>validate_url\<close> returns \<open>True\<close> exactly when \<^verbatim>\<open>urlparse\<close> returns and
  \<open>youtube.com\<close> or \<open>youtu.be\<close> occurs somewhere in the parsed netloc, and \<open>False\<close> otherwise.
  The URL \<^verbatim>\<open>https://notyoutube.com/watch?v=1\<close>, whose host is another domain, is accepted.
\<close>

theorem validate_url_substring_of_netloc:
  "(validate_url urlparse url = Returned True \<longleftrightarrow>
      (\<exists>parsed pre post. urlparse url = Returned parsed \<and>
         (netloc parsed = pre @ ''youtube.com'' @ post \<or> netloc parsed = pre @ ''youtu.be'' @ post)))
   \<and> (validate_url urlparse url = Returned False \<longleftrightarrow>
      \<not> (\<exists>parsed pre post. urlparse url = Returned parsed \<and>
         (netloc parsed = pre @ ''youtube.com'' @ post \<or> netloc parsed = pre @ ''youtu.be'' @ post)))
   \<and> urllib_urlparse chk ''https://notyoutube.com/watch?v=1'' = Returned \<lparr>netloc = ''notyoutube.com''\<rparr>
   \<and> validate_url (urllib_urlparse chk) ''https://notyoutube.com/watch?v=1'' = Returned True"
proof -
  have a: "validate_url urlparse url = Returned True \<longleftrightarrow>
      (\<exists>parsed pre post. urlparse url = Returned parsed \<and>
         (netloc parsed = pre @ ''youtube.com'' @ post \<or> netloc parsed = pre @ ''youtu.be'' @ post))"
    by (cases "urlparse url") (auto simp: validate_url_def bind_def py_in_iff)
  have b: "validate_url urlparse url = Returned False \<longleftrightarrow>
      \<not> (\<exists>parsed pre post. urlparse url = Returned parsed \<and>
         (netloc parsed = pre @ ''youtube.com'' @ post \<or> netloc parsed = pre @ ''youtu.be'' @ post))"
    by (cases "urlparse url") (auto simp: validate_url_def bind_def py_in_iff)
  have c: "validate_url (urllib_urlparse chk) ''https://notyoutube.com/watch?v=1'' = Returned True"
    by (simp add: validate_url_def bind_def urllib_notyoutube)
  show ?thesis using a b c urllib_notyoutube by blast
qed

section \<open>The format expression of a quality tier\<close>

text \<open>
  Claim C7. For each of the five quality tiers, \<open>get_format_string\<close> returns a non-empty
  expression: for \<open>best\<close> the best video plus the best audio with the fallback \<open>best\<close>; for a
  height tier the expression whose two height bounds are the tier's leading digits (the
  tier without its final \<open>p\<close>), the second one on the combined fallback.
\<close>

theorem get_format_string_tiers:
  "\<forall>q \<in> set [''best'', ''1080p'', ''720p'', ''480p'', ''360p''].
     get_format_string q \<noteq> [] \<and>
     (if q = ''best'' then get_format_string q = ''bestvideo*+bestaudio/best''
      else get_format_string q =
             ''bestvideo[height<='' @ takeWhile is_decimal q @ '']+bestaudio/best[height<=''
               @ takeWhile is_decimal q @ '']''
           \<and> q = takeWhile is_decimal q @ ''p'')"
  by (simp add: get_format_string_def is_decimal_def)

theorem get_format_string_tiers_witness:
  "get_format_string ''720p'' = ''bestvideo[height<=720]+bestaudio/best[height<=720]''
   \<and> get_format_string ''best'' = ''bestvideo*+bestaudio/best''"
  using get_format_string_tiers [THEN bspec, of "''720p''"]
        get_format_string_tiers [THEN bspec, of "''best''"]
  by (simp add: is_decimal_def)

section \<open>Decimal digits\<close>

lemma below_ten_cases:
  assumes "d < (10::nat)"
  shows "d = 0 \<or> d = 1 \<or> d = 2 \<or> d = 3 \<or> d = 4 \<or> d = 5 \<or> d = 6 \<or> d = 7 \<or> d = 8 \<or> d = 9"
  using assms by arith

lemma digit_char_is_decimal: "d < 10 \<Longrightarrow> is_decimal (digit_char d)"
  by (drule below_ten_cases) (auto simp: digit_char_def is_decimal_def)

lemma digit_val_digit_char: "d < 10 \<Longrightarrow> digit_val (digit_char d) = d"
  by (drule below_ten_cases) (auto simp: digit_char_def digit_val_def)

lemma digit_val_below_ten: "is_decimal c \<Longrightarrow> digit_val c < 10"
  by (auto simp: is_decimal_def digit_val_def)

lemma decimal_not_space: "is_decimal c \<Longrightarrow> \<not> int_space c"
  by (auto simp: is_decimal_def int_space_def)

lemma decimal_not_sign: "is_decimal c \<Longrightarrow> c \<noteq> CHR ''+'' \<and> c \<noteq> CHR ''-'' \<and> c \<noteq> CHR ''_''"
  by (auto simp: is_decimal_def)

lemma digits_of_nat_decimal: "list_all is_decimal (digits_of_nat n)"
proof (induction n rule: digits_of_nat.induct)
  case (1 n)
  show ?case
  proof (cases "n < 10")
    case True
    then show ?thesis by (simp add: digits_of_nat.simps [of n] digit_char_is_decimal)
  next
    case False
    then have "list_all is_decimal (digits_of_nat (n div 10))" using "1.IH" by simp
    moreover have "is_decimal (digit_char (n mod 10))" by (simp add: digit_char_is_decimal)
    ultimately show ?thesis using False by (simp add: digits_of_nat.simps [of n])
  qed
qed

lemma digits_of_nat_not_empty: "digits_of_nat n \<noteq> []"
  by (simp add: digits_of_nat.simps [of n])

lemma nat_of_digits_snoc: "nat_of_digits (ds @ [c]) = nat_of_digits ds * 10 + digit_val c"
  by (simp add: nat_of_digits_def)

lemma nat_of_digits_of_nat: "nat_of_digits (digits_of_nat n) = n"
proof (induction n rule: digits_of_nat.induct)
  case (1 n)
  show ?case
  proof (cases "n < 10")
    case True
    then show ?thesis
      by (simp add: digits_of_nat.simps [of n] nat_of_digits_def digit_val_digit_char)
  next
    case False
    then have "nat_of_digits (digits_of_nat (n div 10)) = n div 10" using "1.IH" by simp
    then show ?thesis using False
      by (simp add: digits_of_nat.simps [of n] nat_of_digits_snoc digit_val_digit_char)
  qed
qed

lemma length_digits_of_nat: "n < 10 ^ k \<Longrightarrow> 0 < k \<Longrightarrow> length (digits_of_nat n) \<le> k"
proof (induction n arbitrary: k rule: digits_of_nat.induct)
  case (1 n)
  show ?case
  proof (cases "n < 10")
    case True
    then show ?thesis using "1.prems" by (simp add: digits_of_nat.simps [of n])
  next
    case False
    obtain j where k: "k = Suc j" using "1.prems" by (cases k) auto
    have "j \<noteq> 0" using False "1.prems" k by (cases j) auto
    moreover have "n div 10 < 10 ^ j" using "1.prems" k by (simp add: less_mult_imp_div_less mult.commute)
    ultimately have "length (digits_of_nat (n div 10)) \<le> j" using "1.IH" False by simp
    then show ?thesis using False k by (simp add: digits_of_nat.simps [of n])
  qed
qed

lemma nat_of_digits_bound: "list_all is_decimal ds \<Longrightarrow> nat_of_digits ds < 10 ^ length ds"
proof (induction ds rule: rev_induct)
  case Nil
  then show ?case by (simp add: nat_of_digits_def)
next
  case (snoc c ds)
  then have "nat_of_digits ds < 10 ^ length ds" and "digit_val c < 10"
    by (simp_all add: digit_val_below_ten)
  then have "nat_of_digits ds * 10 + digit_val c < 10 ^ length ds * 10" by arith
  then show ?case by (simp add: nat_of_digits_snoc mult.commute)
qed

lemma length_digits_of_digits:
  assumes "list_all is_decimal ds" "ds \<noteq> []"
  shows "length (digits_of_nat (nat_of_digits ds)) \<le> length ds"
  using assms by (intro length_digits_of_nat nat_of_digits_bound) auto

lemma decimal_digits_underscores: "list_all is_decimal ds \<Longrightarrow> ds \<noteq> [] \<Longrightarrow> digits_underscores ds"
  by (induction ds rule: digits_underscores.induct) (auto dest: decimal_not_sign)

lemma dropWhile_none: "list_all (\<lambda>c. \<not> P c) xs \<Longrightarrow> dropWhile P xs = xs"
  by (cases xs) auto

lemma strip_int_space_decimal: "list_all is_decimal ds \<Longrightarrow> strip_int_space ds = ds"
proof -
  assume d: "list_all is_decimal ds"
  then have a: "list_all (\<lambda>c. \<not> int_space c) ds"
    by (simp add: list_all_iff decimal_not_space)
  then have "list_all (\<lambda>c. \<not> int_space c) (rev ds)" by (simp add: list_all_iff)
  then show ?thesis using a by (simp add: strip_int_space_def dropWhile_none)
qed

lemma remove_underscore_decimal: "list_all is_decimal ds \<Longrightarrow> remove_char (CHR ''_'') ds = ds"
  by (induction ds) (auto simp: remove_char_def dest: decimal_not_sign)

lemma py_int_decimal:
  assumes "list_all is_decimal ds" "ds \<noteq> []"
  shows "py_int lim ds =
           (if over_limit lim (length ds) then Raised ValueError
            else Returned (int (nat_of_digits ds)))"
proof -
  obtain c r where ds: "ds = c # r" using assms(2) by (cases ds) auto
  then have "is_decimal c" using assms(1) by simp
  then have c: "c \<noteq> CHR ''+''" "c \<noteq> CHR ''-''" using decimal_not_sign by auto
  have t: "strip_int_space (c # r) = c # r"
    using strip_int_space_decimal [OF assms(1)] ds by simp
  have du: "digits_underscores (c # r)"
    using decimal_digits_underscores [OF assms] ds by simp
  have ru: "remove_char (CHR ''_'') (c # r) = c # r"
    using remove_underscore_decimal [OF assms(1)] ds by simp
  show ?thesis
    unfolding ds py_int_def t using c du ru by (simp del: digits_underscores.simps)
qed

lemma py_split_no_sep: "sep \<notin> set s \<Longrightarrow> py_split sep s = [s]"
  by (induction s) auto

lemma py_split_at_sep: "sep \<notin> set a \<Longrightarrow> py_split sep (a @ sep # b) = a # py_split sep b"
  by (induction a) auto

lemma py_in_char: "py_in [c] s \<longleftrightarrow> c \<in> set s"
proof (induction s)
  case Nil
  then show ?case by simp
next
  case (Cons d s)
  have "startswith (d # s) [c] \<longleftrightarrow> d = c" by simp
  then show ?case using Cons by auto
qed

lemma decimal_no_hyphen: "list_all is_decimal ds \<Longrightarrow> CHR ''-'' \<notin> set ds"
  by (auto simp: list_all_iff dest: decimal_not_sign)

section \<open>The selection descriptor\<close>

lemma over_limit_mono: "\<not> over_limit lim n \<Longrightarrow> m \<le> n \<Longrightarrow> \<not> over_limit lim m"
  by (auto simp: over_limit_def)

lemma py_int_digits_of_nat:
  "\<not> over_limit lim (length (digits_of_nat n)) \<Longrightarrow> py_int lim (digits_of_nat n) = Returned (int n)"
  by (simp add: py_int_decimal digits_of_nat_decimal digits_of_nat_not_empty nat_of_digits_of_nat)

lemma py_str_int_nat:
  "\<not> over_limit lim (length (digits_of_nat n)) \<Longrightarrow> py_str_int lim (int n) = Returned (digits_of_nat n)"
  by (simp add: py_str_int_def)

lemma split_range_descriptor:
  "py_split (CHR ''-'') (digits_of_nat a @ CHR ''-'' # digits_of_nat b) = [digits_of_nat a, digits_of_nat b]"
  using py_split_at_sep [of "CHR ''-''" "digits_of_nat a" "digits_of_nat b"]
  by (simp add: py_split_no_sep decimal_no_hyphen digits_of_nat_decimal)

lemma range_descriptor_read_back:
  assumes "\<not> over_limit lim (length (digits_of_nat a))" "\<not> over_limit lim (length (digits_of_nat b))"
  shows "set_playlist_items lim (Some (digits_of_nat a @ ''-'' @ digits_of_nat b)) opts =
           Returned (opts\<lparr>playliststart := Some (int a), playlistend := Some (int b)\<rparr>)"
proof -
  have "unpack_start_end lim [digits_of_nat a, digits_of_nat b] = Returned (int a, int b)"
    using assms by (simp add: unpack_start_end_def bind_def py_int_digits_of_nat)
  then show ?thesis
    by (simp add: set_playlist_items_def truthy_def py_in_char split_range_descriptor bind_def)
qed

lemma select_range_descriptor:
  assumes mode: "dict_get p ''playlist_options'' = Some ''Select range''"
    and s: "map_of p ''start_index'' = Some (PyStr s)" "list_all is_decimal s" "s \<noteq> []"
           "\<not> over_limit lim (length s)"
    and e: "map_of p ''end_index'' = Some (PyStr e)" "list_all is_decimal e" "e \<noteq> []"
           "\<not> over_limit lim (length e)"
  shows "get_playlist_config lim p =
           Returned (Some (digits_of_nat (nat_of_digits s) @ ''-'' @ digits_of_nat (nat_of_digits e)))"
    and "\<not> over_limit lim (length (digits_of_nat (nat_of_digits s)))"
    and "\<not> over_limit lim (length (digits_of_nat (nat_of_digits e)))"
proof -
  show a: "\<not> over_limit lim (length (digits_of_nat (nat_of_digits s)))"
    using over_limit_mono [OF s(4) length_digits_of_digits [OF s(2) s(3)]] .
  show b: "\<not> over_limit lim (length (digits_of_nat (nat_of_digits e)))"
    using over_limit_mono [OF e(4) length_digits_of_digits [OF e(2) e(3)]] .
  have "py_int_val lim (PyStr s) = Returned (int (nat_of_digits s))"
       "py_int_val lim (PyStr e) = Returned (int (nat_of_digits e))"
    using s e by (simp_all add: py_int_val_def py_int_decimal)
  then show "get_playlist_config lim p =
           Returned (Some (digits_of_nat (nat_of_digits s) @ ''-'' @ digits_of_nat (nat_of_digits e)))"
    using mode s(1) e(1) a b
    by (simp add: get_playlist_config_def dict_item_def bind_def py_str_int_nat)
qed

lemma specific_videos_descriptor:
  assumes "dict_get p ''playlist_options'' = Some ''Specific videos''"
    and "map_of p ''video_indices'' = Some (PyStr t)"
  shows "get_playlist_config lim p = Returned (Some (remove_char (CHR '' '') t))"
  using assms by (simp add: get_playlist_config_def dict_item_def bind_def str_replace_blank_def)

lemma other_mode_descriptor:
  assumes "dict_get p ''playlist_options'' \<noteq> Some ''Select range''"
    and "dict_get p ''playlist_options'' \<noteq> Some ''Specific videos''"
  shows "get_playlist_config lim p = Returned None"
  using assms by (simp add: get_playlist_config_def)

text \<open>
  Claim C4. \<open>get_playlist_config\<close> is a function of the preferences (and of the
  interpreter's digit limit). In the mode \<open>Select range\<close>, with start and end entered as
  non-empty strings of decimal digits within the limit, the descriptor is the decimal start,
  a hyphen and the decimal end, which \<open>download_videos\<close> reads back as \<open>playliststart\<close> and
  \<open>playlistend\<close> with the numbers entered. In the mode \<open>Specific videos\<close> the descriptor is
  the text with its blanks removed; for \<open>1, 3,5\<close> its comma-separated tokens are \<open>1\<close>, \<open>3\<close>,
  \<open>5\<close> in this order. In the mode \<open>Full playlist\<close>, or with no mode, the descriptor is
  \<open>None\<close>.
\<close>

theorem get_playlist_config_modes:
  "(dict_get p ''playlist_options'' = Some ''Select range''
      \<and> map_of p ''start_index'' = Some (PyStr s) \<and> s \<noteq> [] \<and> list_all is_decimal s
      \<and> \<not> over_limit lim (length s)
      \<and> map_of p ''end_index'' = Some (PyStr e) \<and> e \<noteq> [] \<and> list_all is_decimal e
      \<and> \<not> over_limit lim (length e)
    \<longrightarrow> (\<exists>d. get_playlist_config lim p = Returned (Some d)
            \<and> d = digits_of_nat (nat_of_digits s) @ ''-'' @ digits_of_nat (nat_of_digits e)
            \<and> set_playlist_items lim (Some d) opts =
                Returned (opts\<lparr>playliststart := Some (int (nat_of_digits s)),
                                playlistend := Some (int (nat_of_digits e))\<rparr>)))
   \<and> (dict_get p ''playlist_options'' = Some ''Specific videos''
      \<and> map_of p ''video_indices'' = Some (PyStr t)
    \<longrightarrow> get_playlist_config lim p = Returned (Some (remove_char (CHR '' '') t)))
   \<and> (dict_get p ''playlist_options'' = Some ''Specific videos''
      \<and> map_of p ''video_indices'' = Some (PyStr ''1, 3,5'')
    \<longrightarrow> (\<exists>d. get_playlist_config lim p = Returned (Some d)
            \<and> py_split (CHR '','') d = [''1'', ''3'', ''5'']))
   \<and> (dict_get p ''playlist_options'' = Some ''Full playlist''
        \<or> dict_get p ''playlist_options'' = None
    \<longrightarrow> get_playlist_config lim p = Returned None)"
proof (intro conjI impI)
  assume h: "dict_get p ''playlist_options'' = Some ''Select range''
      \<and> map_of p ''start_index'' = Some (PyStr s) \<and> s \<noteq> [] \<and> list_all is_decimal s
      \<and> \<not> over_limit lim (length s)
      \<and> map_of p ''end_index'' = Some (PyStr e) \<and> e \<noteq> [] \<and> list_all is_decimal e
      \<and> \<not> over_limit lim (length e)"
  then have d: "get_playlist_config lim p =
      Returned (Some (digits_of_nat (nat_of_digits s) @ ''-'' @ digits_of_nat (nat_of_digits e)))"
    and "\<not> over_limit lim (length (digits_of_nat (nat_of_digits s)))"
    and "\<not> over_limit lim (length (digits_of_nat (nat_of_digits e)))"
    using select_range_descriptor [of p s lim e] by blast+
  then show "\<exists>d. get_playlist_config lim p = Returned (Some d)
            \<and> d = digits_of_nat (nat_of_digits s) @ ''-'' @ digits_of_nat (nat_of_digits e)
            \<and> set_playlist_items lim (Some d) opts =
                Returned (opts\<lparr>playliststart := Some (int (nat_of_digits s)),
                                playlistend := Some (int (nat_of_digits e))\<rparr>)"
    using range_descriptor_read_back by blast
next
  assume "dict_get p ''playlist_options'' = Some ''Specific videos''
      \<and> map_of p ''video_indices'' = Some (PyStr t)"
  then show "get_playlist_config lim p = Returned (Some (remove_char (CHR '' '') t))"
    using specific_videos_descriptor by blast
next
  assume "dict_get p ''playlist_options'' = Some ''Specific videos''
      \<and> map_of p ''video_indices'' = Some (PyStr ''1, 3,5'')"
  then have "get_playlist_config lim p = Returned (Some (remove_char (CHR '' '') ''1, 3,5''))"
    using specific_videos_descriptor by blast
  moreover have "py_split (CHR '','') (remove_char (CHR '' '') ''1, 3,5'') = [''1'', ''3'', ''5'']"
    by (simp add: remove_char_def)
  ultimately show "\<exists>d. get_playlist_config lim p = Returned (Some d)
            \<and> py_split (CHR '','') d = [''1'', ''3'', ''5'']"
    by blast
next
  assume "dict_get p ''playlist_options'' = Some ''Full playlist''
        \<or> dict_get p ''playlist_options'' = None"
  then show "get_playlist_config lim p = Returned None"
    by (auto intro: other_mode_descriptor)
qed

theorem get_playlist_config_modes_witness:
  "get_playlist_config 4300
     [(''playlist_options'', PyStr ''Select range''), (''start_index'', PyStr ''1''),
      (''end_index'', PyStr ''5'')] = Returned (Some ''1-5'')
   \<and> set_playlist_items 4300 (Some ''1-5'') (initial_opts ''downloads'' False (PyStr ''mp3'')) =
       Returned ((initial_opts ''downloads'' False (PyStr ''mp3''))
                   \<lparr>playliststart := Some 1, playlistend := Some 5\<rparr>)
   \<and> get_playlist_config 4300
       [(''playlist_options'', PyStr ''Specific videos''), (''video_indices'', PyStr ''1, 3,5'')] =
       Returned (Some ''1,3,5'')
   \<and> py_split (CHR '','') ''1,3,5'' = [''1'', ''3'', ''5'']
   \<and> get_playlist_config 4300 [(''playlist_options'', PyStr ''Full playlist'')] = Returned None
   \<and> get_playlist_config 4300 [] = Returned None"
proof -
  have one: "nat_of_digits ''1'' = 1" and five: "nat_of_digits ''5'' = 5"
    by (simp_all add: nat_of_digits_def digit_val_def)
  have d1: "digits_of_nat (Suc 0) = ''1''" and d5: "digits_of_nat 5 = ''5''"
    by (simp_all add: digits_of_nat.simps digit_char_def)
  show ?thesis
    using get_playlist_config_modes [of
        "[(''playlist_options'', PyStr ''Select range''), (''start_index'', PyStr ''1''),
          (''end_index'', PyStr ''5'')]" "''1''" 4300 "''5''"
        "initial_opts ''downloads'' False (PyStr ''mp3'')" "''1, 3,5''"]
      get_playlist_config_modes [of
        "[(''playlist_options'', PyStr ''Specific videos''), (''video_indices'', PyStr ''1, 3,5'')]"
        "''1''" 4300 "''5''" "initial_opts ''downloads'' False (PyStr ''mp3'')" "''1, 3,5''"]
      get_playlist_config_modes [of "[(''playlist_options'', PyStr ''Full playlist'')]"
        "''1''" 4300 "''5''" "initial_opts ''downloads'' False (PyStr ''mp3'')" "''1, 3,5''"]
      get_playlist_config_modes [of "[]"
        "''1''" 4300 "''5''" "initial_opts ''downloads'' False (PyStr ''mp3'')" "''1, 3,5''"]
    by (simp add: dict_get_def is_decimal_def over_limit_def one five d1 d5 remove_char_def)
qed

section \<open>What the preference collector returns\<close>

lemma prompt_names: "prompt qs answers rest \<Longrightarrow> map fst rest = map question_name qs"
proof (induction qs arbitrary: answers rest)
  case Nil
  then show ?case by simp
next
  case (Cons q qs)
  then show ?case by (cases rest) auto
qed

lemma collector_fields_playlist:
  assumes "get_user_input urlparse True p"
  shows "\<exists>u out mode v3 v4 v5 dt v7 v8.
           p = [(''url'', PyStr u), (''output_path'', PyStr out), (''playlist_options'', PyStr mode),
                (''start_index'', v3), (''end_index'', v4), (''video_indices'', v5),
                (''download_type'', PyStr dt), (''quality'', v7), (''audio_format'', v8)]
           \<and> validate_url urlparse u = Returned True
           \<and> mode \<in> set [''Full playlist'', ''Select range'', ''Specific videos'']
           \<and> (if mode = ''Select range''
               then (\<exists>s e. v3 = PyStr s \<and> isdigit s \<and> v4 = PyStr e \<and> isdigit e)
               else v3 = PyNone \<and> v4 = PyNone)
           \<and> (if mode = ''Specific videos'' then (\<exists>t. v5 = PyStr t) else v5 = PyNone)
           \<and> dt \<in> set [''Video with Audio'', ''Audio Only'']
           \<and> (if dt = ''Audio Only'' then v7 = PyNone
               else (\<exists>q. v7 = PyStr q \<and> q \<in> set [''best'', ''1080p'', ''720p'', ''480p'', ''360p'']))
           \<and> (if dt = ''Video with Audio'' then v8 = PyNone
               else (\<exists>f. v8 = PyStr f \<and> f \<in> set [''mp3'', ''wav'', ''m4a'']))"
proof -
  from assms have pr: "prompt (questions urlparse True) [] p"
    by (simp add: get_user_input_def)
  then have "map fst p = map question_name (questions urlparse True)"
    by (rule prompt_names)
  then have "map fst p = [''url'', ''output_path'', ''playlist_options'', ''start_index'',
      ''end_index'', ''video_indices'', ''download_type'', ''quality'', ''audio_format'']"
    by (simp add: questions_def)
  then obtain v0 v1 v2 v3 v4 v5 v6 v7 v8 where p:
    "p = [(''url'', v0), (''output_path'', v1), (''playlist_options'', v2),
          (''start_index'', v3), (''end_index'', v4), (''video_indices'', v5),
          (''download_type'', v6), (''quality'', v7), (''audio_format'', v8)]"
    by (auto simp: map_eq_Cons_conv)
  have a0: "answers_question (Text ''url'' (\<lambda>_ x. validate_url urlparse x = Returned True) never) [] v0"
    and a1: "answers_question (Text ''output_path'' always never) [(''url'', v0)] v1"
    and a2: "answers_question
               (List ''playlist_options'' [''Full playlist'', ''Select range'', ''Specific videos''] never)
               [(''url'', v0), (''output_path'', v1)] v2"
    using pr unfolding p questions_def by simp_all
  obtain u out mode where v: "v0 = PyStr u" "v1 = PyStr out" "v2 = PyStr mode"
    and u: "validate_url urlparse u = Returned True"
    and mode: "mode \<in> set [''Full playlist'', ''Select range'', ''Specific videos'']"
    using a0 a1 a2 by (cases v0; cases v1; cases v2) (auto simp: never_def)
  have a3: "answers_question (Text ''start_index'' (\<lambda>_ x. isdigit x)
               (\<lambda>x. dict_get x ''playlist_options'' \<notin> set [Some ''Select range'']))
               [(''url'', v0), (''output_path'', v1), (''playlist_options'', v2)] v3"
    and a4: "answers_question (Text ''end_index'' (\<lambda>_ x. isdigit x)
               (\<lambda>x. dict_get x ''playlist_options'' \<notin> set [Some ''Select range'']))
               [(''url'', v0), (''output_path'', v1), (''playlist_options'', v2), (''start_index'', v3)] v4"
    and a5: "answers_question (Text ''video_indices'' always
               (\<lambda>x. dict_get x ''playlist_options'' \<notin> set [Some ''Specific videos'']))
               [(''url'', v0), (''output_path'', v1), (''playlist_options'', v2), (''start_index'', v3),
                (''end_index'', v4)] v5"
    using pr unfolding p questions_def by simp_all
  have r34: "if mode = ''Select range''
             then (\<exists>s e. v3 = PyStr s \<and> isdigit s \<and> v4 = PyStr e \<and> isdigit e)
             else v3 = PyNone \<and> v4 = PyNone"
    using a3 a4 v by (cases v3; cases v4) (auto simp: dict_get_def split: if_splits)
  have r5: "if mode = ''Specific videos'' then (\<exists>t. v5 = PyStr t) else v5 = PyNone"
    using a5 v by (cases v5) (auto simp: dict_get_def always_def split: if_splits)
  have a6: "answers_question (List ''download_type'' [''Video with Audio'', ''Audio Only''] never)
               [(''url'', v0), (''output_path'', v1), (''playlist_options'', v2), (''start_index'', v3),
                (''end_index'', v4), (''video_indices'', v5)] v6"
    using pr unfolding p questions_def by simp
  then obtain dt where v6: "v6 = PyStr dt" and dt: "dt \<in> set [''Video with Audio'', ''Audio Only'']"
    by (cases v6) (auto simp: never_def)
  have a7: "answers_question (List ''quality'' [''best'', ''1080p'', ''720p'', ''480p'', ''360p'']
               (\<lambda>x. dict_get x ''download_type'' = Some ''Audio Only''))
               [(''url'', v0), (''output_path'', v1), (''playlist_options'', v2), (''start_index'', v3),
                (''end_index'', v4), (''video_indices'', v5), (''download_type'', v6)] v7"
    and a8: "answers_question (List ''audio_format'' [''mp3'', ''wav'', ''m4a'']
               (\<lambda>x. dict_get x ''download_type'' = Some ''Video with Audio''))
               [(''url'', v0), (''output_path'', v1), (''playlist_options'', v2), (''start_index'', v3),
                (''end_index'', v4), (''video_indices'', v5), (''download_type'', v6), (''quality'', v7)] v8"
    using pr unfolding p questions_def by simp_all
  have r7: "if dt = ''Audio Only'' then v7 = PyNone
            else (\<exists>q. v7 = PyStr q \<and> q \<in> set [''best'', ''1080p'', ''720p'', ''480p'', ''360p''])"
    using a7 v6 by (cases v7) (auto simp: dict_get_def split: if_splits)
  have r8: "if dt = ''Video with Audio'' then v8 = PyNone
            else (\<exists>f. v8 = PyStr f \<and> f \<in> set [''mp3'', ''wav'', ''m4a''])"
    using a8 v6 by (cases v8) (auto simp: dict_get_def split: if_splits)
  show ?thesis
    using p v u mode r34 r5 v6 dt r7 r8 by blast
qed

lemma collector_fields_single:
  assumes "get_user_input urlparse False p"
  shows "dict_get p ''playlist_options'' = None"
proof -
  from assms have "prompt (questions urlparse False) [] p"
    by (simp add: get_user_input_def)
  then have "map fst p = map question_name (questions urlparse False)"
    by (rule prompt_names)
  then have "''playlist_options'' \<notin> set (map fst p)"
    by (simp add: questions_def)
  then have "map_of p ''playlist_options'' = None"
    by (simp add: map_of_eq_None_iff)
  then show ?thesis by (simp add: dict_get_def)
qed

lemma digit_char_plain:
  "is_digit_char c \<Longrightarrow> \<not> int_space c \<and> c \<noteq> CHR ''+'' \<and> c \<noteq> CHR ''-'' \<and> c \<noteq> CHR ''_''"
  by (auto simp: is_digit_char_def is_decimal_def int_space_def)

lemma digits_underscores_digit_chars:
  "digits_underscores s \<Longrightarrow> list_all is_digit_char s \<Longrightarrow> list_all is_decimal s"
  by (induction s rule: digits_underscores.induct) (auto dest: digit_char_plain)

lemma strip_int_space_digit_chars: "list_all is_digit_char s \<Longrightarrow> strip_int_space s = s"
proof -
  assume d: "list_all is_digit_char s"
  then have a: "list_all (\<lambda>c. \<not> int_space c) s"
    by (simp add: list_all_iff digit_char_plain)
  then have "list_all (\<lambda>c. \<not> int_space c) (rev s)" by (simp add: list_all_iff)
  then show ?thesis using a by (simp add: strip_int_space_def dropWhile_none)
qed

lemma isdigit_int_returned:
  assumes "isdigit s" "py_int lim s = Returned x"
  shows "list_all is_decimal s \<and> s \<noteq> [] \<and> \<not> over_limit lim (length s)
         \<and> x = int (nat_of_digits s)"
proof -
  from assms(1) have all: "list_all is_digit_char s" and ne: "s \<noteq> []"
    by (simp_all add: isdigit_def)
  then obtain c r where s: "s = c # r" by (cases s) auto
  then have "is_digit_char c" using all by simp
  then have c: "c \<noteq> CHR ''+''" "c \<noteq> CHR ''-''" using digit_char_plain by auto
  have t: "strip_int_space (c # r) = c # r"
    using strip_int_space_digit_chars [OF all] s by simp
  have "digits_underscores (c # r)"
    using assms(2) c unfolding s py_int_def t
    by (simp add: Let_def del: digits_underscores.simps split: if_splits)
  then have dec: "list_all is_decimal s"
    using digits_underscores_digit_chars [of "c # r"] all s by simp
  then show ?thesis
    using assms(2) ne by (simp add: py_int_decimal split: if_splits)
qed

lemma collector_range_fields:
  assumes "get_user_input urlparse True p"
    and "dict_get p ''playlist_options'' = Some ''Select range''"
  shows "\<exists>s e. map_of p ''start_index'' = Some (PyStr s) \<and> isdigit s
               \<and> map_of p ''end_index'' = Some (PyStr e) \<and> isdigit e"
proof -
  from collector_fields_playlist [OF assms(1)]
  obtain u out mode v3 v4 v5 dt v7 v8 where
    p: "p = [(''url'', PyStr u), (''output_path'', PyStr out), (''playlist_options'', PyStr mode),
             (''start_index'', v3), (''end_index'', v4), (''video_indices'', v5),
             (''download_type'', PyStr dt), (''quality'', v7), (''audio_format'', v8)]"
    and r: "if mode = ''Select range''
            then (\<exists>s e. v3 = PyStr s \<and> isdigit s \<and> v4 = PyStr e \<and> isdigit e)
            else v3 = PyNone \<and> v4 = PyNone"
    by blast
  from assms(2) have "mode = ''Select range''"
    unfolding p by (simp add: dict_get_def)
  with r obtain s e where "v3 = PyStr s" "isdigit s" "v4 = PyStr e" "isdigit e"
    by auto
  then show ?thesis unfolding p by simp
qed

lemma collector_specific_fields:
  assumes "get_user_input urlparse True p"
    and "dict_get p ''playlist_options'' = Some ''Specific videos''"
  shows "\<exists>t. map_of p ''video_indices'' = Some (PyStr t)"
proof -
  from collector_fields_playlist [OF assms(1)]
  obtain u out mode v3 v4 v5 dt v7 v8 where
    p: "p = [(''url'', PyStr u), (''output_path'', PyStr out), (''playlist_options'', PyStr mode),
             (''start_index'', v3), (''end_index'', v4), (''video_indices'', v5),
             (''download_type'', PyStr dt), (''quality'', v7), (''audio_format'', v8)]"
    and r: "if mode = ''Specific videos'' then (\<exists>t. v5 = PyStr t) else v5 = PyNone"
    by blast
  from assms(2) have "mode = ''Specific videos''"
    unfolding p by (simp add: dict_get_def)
  with r obtain t where "v5 = PyStr t"
    by auto
  then show ?thesis unfolding p by simp
qed

text \<open>
  Claim C2, as amended. For every preferences record the collector can produce, when
  \<open>get_playlist_config\<close> returns a descriptor: in the mode \<open>Select range\<close> the descriptor is
  a range whose start and end are non-negative integers, read back as such by
  \<open>download_videos\<close> (nothing orders the start and the end); in the mode
  \<open>Specific videos\<close> it is the entered text with its blanks removed (nothing checks the
  indices); in every other case it is \<open>None\<close>.
\<close>

theorem collector_selection_descriptor:
  assumes "get_user_input urlparse is_playlist_url p"
    and "get_playlist_config lim p = Returned d"
  shows "(dict_get p ''playlist_options'' = Some ''Select range'' \<longrightarrow>
            (\<exists>a b. d = Some (digits_of_nat a @ ''-'' @ digits_of_nat b)
               \<and> 0 \<le> int a \<and> 0 \<le> int b
               \<and> set_playlist_items lim d opts =
                   Returned (opts\<lparr>playliststart := Some (int a), playlistend := Some (int b)\<rparr>)))
       \<and> (dict_get p ''playlist_options'' = Some ''Specific videos'' \<longrightarrow>
            (\<exists>t. map_of p ''video_indices'' = Some (PyStr t)
               \<and> d = Some (remove_char (CHR '' '') t)))
       \<and> (dict_get p ''playlist_options'' \<noteq> Some ''Select range''
            \<and> dict_get p ''playlist_options'' \<noteq> Some ''Specific videos'' \<longrightarrow> d = None)"
proof (intro conjI impI)
  assume mode: "dict_get p ''playlist_options'' = Some ''Select range''"
  then have "is_playlist_url" using assms(1) collector_fields_single by (cases is_playlist_url) auto
  then have "get_user_input urlparse True p" using assms(1) by simp
  from collector_range_fields [OF this mode]
  obtain s e where s: "map_of p ''start_index'' = Some (PyStr s)" "isdigit s"
    and e: "map_of p ''end_index'' = Some (PyStr e)" "isdigit e"
    by blast
  obtain x y where x: "py_int lim s = Returned x" and y: "py_int lim e = Returned y"
    using assms(2) mode s(1) e(1)
    by (cases "py_int lim s"; cases "py_int lim e")
       (auto simp: get_playlist_config_def dict_item_def bind_def py_int_val_def)
  have ds: "list_all is_decimal s" "s \<noteq> []" "\<not> over_limit lim (length s)"
    and de: "list_all is_decimal e" "e \<noteq> []" "\<not> over_limit lim (length e)"
    using isdigit_int_returned [OF s(2) x] isdigit_int_returned [OF e(2) y] by auto
  have "get_playlist_config lim p =
          Returned (Some (digits_of_nat (nat_of_digits s) @ ''-'' @ digits_of_nat (nat_of_digits e)))"
    and la: "\<not> over_limit lim (length (digits_of_nat (nat_of_digits s)))"
    and lb: "\<not> over_limit lim (length (digits_of_nat (nat_of_digits e)))"
    using select_range_descriptor [OF mode s(1) ds e(1) de] by auto
  then have d: "d = Some (digits_of_nat (nat_of_digits s) @ ''-'' @ digits_of_nat (nat_of_digits e))"
    using assms(2) by simp
  have "set_playlist_items lim d opts =
          Returned (opts\<lparr>playliststart := Some (int (nat_of_digits s)),
                          playlistend := Some (int (nat_of_digits e))\<rparr>)"
    unfolding d using range_descriptor_read_back [OF la lb] .
  then show "\<exists>a b. d = Some (digits_of_nat a @ ''-'' @ digits_of_nat b)
               \<and> 0 \<le> int a \<and> 0 \<le> int b
               \<and> set_playlist_items lim d opts =
                   Returned (opts\<lparr>playliststart := Some (int a), playlistend := Some (int b)\<rparr>)"
    using d by fastforce
next
  assume mode: "dict_get p ''playlist_options'' = Some ''Specific videos''"
  then have "is_playlist_url" using assms(1) collector_fields_single by (cases is_playlist_url) auto
  then have "get_user_input urlparse True p" using assms(1) by simp
  from collector_specific_fields [OF this mode]
  obtain t where t: "map_of p ''video_indices'' = Some (PyStr t)"
    by blast
  then have "d = Some (remove_char (CHR '' '') t)"
    using specific_videos_descriptor [OF mode t, of lim] assms(2) by simp
  then show "\<exists>t. map_of p ''video_indices'' = Some (PyStr t) \<and> d = Some (remove_char (CHR '' '') t)"
    using t by blast
next
  assume "dict_get p ''playlist_options'' \<noteq> Some ''Select range''
            \<and> dict_get p ''playlist_options'' \<noteq> Some ''Specific videos''"
  then show "d = None"
    using other_mode_descriptor [of p lim] assms(2) by simp
qed

section \<open>The examples, evaluated\<close>

lemmas urllib_defs = urllib_urlparse_def urlsplit_netloc_def bind_def strip_scheme_def
  scheme_chars_def ascii_alpha_def splitnetloc_def

lemmas collector_defs = get_user_input_def questions_def never_def always_def dict_get_def
  isdigit_def is_digit_char_def is_decimal_def validate_url_def

lemmas int_defs = py_int_def strip_int_space_def int_space_def is_decimal_def remove_char_def
  over_limit_def nat_of_digits_def digit_val_def

lemmas resolver_defs = get_playlist_config_def dict_get_def dict_item_def bind_def py_int_val_def
  py_str_int_def digits_of_nat.simps digit_char_def str_replace_blank_def

lemma prefs_range_5_1_producible:
  "get_user_input (urllib_urlparse (\<lambda>h. None)) True prefs_range_5_1"
  by (simp add: prefs_range_5_1_def collector_defs urllib_defs)

lemma prefs_range_5_1_descriptor: "get_playlist_config 4300 prefs_range_5_1 = Returned (Some ''5-1'')"
  by (simp add: prefs_range_5_1_def resolver_defs int_defs)

lemma read_5_1:
  "set_playlist_items 4300 (Some ''5-1'') opts =
     Returned (opts\<lparr>playliststart := Some 5, playlistend := Some 1\<rparr>)"
  by (simp add: set_playlist_items_def truthy_def unpack_start_end_def bind_def int_defs)

lemma prefs_indices_0_x_producible:
  "get_user_input (urllib_urlparse (\<lambda>h. None)) True prefs_indices_0_x"
  by (simp add: prefs_indices_0_x_def collector_defs urllib_defs)

lemma prefs_indices_0_x_descriptor:
  "get_playlist_config 4300 prefs_indices_0_x = Returned (Some ''0,x'')"
  by (simp add: prefs_indices_0_x_def resolver_defs remove_char_def)

text \<open>
  The invariant as the specification words it fails on preferences the collector can
  return: the range from 5 to 1 is read as start 5 and end 1, and of the index text \<open>0, x\<close>
  the tokens \<open>0\<close> and \<open>x\<close> are not positive integers.
\<close>

theorem selection_invariant_counterexample:
  "get_user_input (urllib_urlparse (\<lambda>h. None)) True prefs_range_5_1
   \<and> get_playlist_config 4300 prefs_range_5_1 = Returned (Some ''5-1'')
   \<and> set_playlist_items 4300 (Some ''5-1'') (initial_opts ''downloads'' False (PyStr ''mp3'')) =
       Returned ((initial_opts ''downloads'' False (PyStr ''mp3''))
                   \<lparr>playliststart := Some 5, playlistend := Some 1\<rparr>)
   \<and> \<not> spec_start_le_end ((initial_opts ''downloads'' False (PyStr ''mp3''))
                               \<lparr>playliststart := Some 5, playlistend := Some 1\<rparr>)
   \<and> get_user_input (urllib_urlparse (\<lambda>h. None)) True prefs_indices_0_x
   \<and> get_playlist_config 4300 prefs_indices_0_x = Returned (Some ''0,x'')
   \<and> \<not> spec_indices_positive 4300 ''0,x''"
proof -
  have "\<not> spec_start_le_end ((initial_opts ''downloads'' False (PyStr ''mp3''))
                               \<lparr>playliststart := Some 5, playlistend := Some 1\<rparr>)"
    by (simp add: spec_start_le_end_def)
  moreover have "\<not> spec_indices_positive 4300 ''0,x''"
    by (simp add: spec_indices_positive_def int_defs)
  ultimately show ?thesis
    using prefs_range_5_1_producible prefs_range_5_1_descriptor read_5_1
      prefs_indices_0_x_producible prefs_indices_0_x_descriptor
    by simp
qed

theorem collector_selection_descriptor_witness:
  "get_user_input (urllib_urlparse (\<lambda>h. None)) True prefs_range_5_1
   \<and> get_playlist_config 4300 prefs_range_5_1 = Returned (Some ''5-1'')
   \<and> (\<exists>a b. ''5-1'' = digits_of_nat a @ ''-'' @ digits_of_nat b
          \<and> set_playlist_items 4300 (Some ''5-1'') (initial_opts ''downloads'' False (PyStr ''mp3'')) =
              Returned ((initial_opts ''downloads'' False (PyStr ''mp3''))
                          \<lparr>playliststart := Some (int a), playlistend := Some (int b)\<rparr>))
   \<and> get_user_input (urllib_urlparse (\<lambda>h. None)) True prefs_indices_0_x
   \<and> get_playlist_config 4300 prefs_indices_0_x = Returned (Some ''0,x'')
   \<and> (\<exists>t. map_of prefs_indices_0_x ''video_indices'' = Some (PyStr t)
          \<and> ''0,x'' = remove_char (CHR '' '') t)"
proof -
  have m1: "dict_get prefs_range_5_1 ''playlist_options'' = Some ''Select range''"
    by (simp add: prefs_range_5_1_def dict_get_def)
  have m2: "dict_get prefs_indices_0_x ''playlist_options'' = Some ''Specific videos''"
    by (simp add: prefs_indices_0_x_def dict_get_def)
  show ?thesis
    using collector_selection_descriptor
        [OF prefs_range_5_1_producible prefs_range_5_1_descriptor,
          of "initial_opts ''downloads'' False (PyStr ''mp3'')"]
      collector_selection_descriptor
        [OF prefs_indices_0_x_producible prefs_indices_0_x_descriptor,
          of "initial_opts ''downloads'' False (PyStr ''mp3'')"]
      prefs_range_5_1_producible prefs_range_5_1_descriptor
      prefs_indices_0_x_producible prefs_indices_0_x_descriptor m1 m2
    by simp
qed

section \<open>The selection is read before the \<^verbatim>\<open>try\<close>\<close>

lemmas run_defs = seq_def call_def emit_def lift_def result_def

lemma unpack_raises_ValueError: "unpack_start_end lim parts = Raised e \<Longrightarrow> e = ValueError"
  by (auto simp: unpack_start_end_def bind_def py_int_def Let_def
      split: list.splits outcome.splits if_splits prod.splits)

lemma py_in_not_empty: "py_in [c] items \<Longrightarrow> truthy (Some items)"
  by (cases items) (auto simp: truthy_def)

lemma prefs_indices_hyphen_producible:
  "get_user_input (urllib_urlparse (\<lambda>h. None)) True prefs_indices_hyphen"
  by (simp add: prefs_indices_hyphen_def collector_defs urllib_defs)

lemma prefs_indices_hyphen_descriptor:
  "get_playlist_config lim prefs_indices_hyphen = Returned (Some ''1-3,5'')"
  by (simp add: prefs_indices_hyphen_def resolver_defs remove_char_def)

lemma unpack_1_3_5: "unpack_start_end lim (py_split (CHR ''-'') ''1-3,5'') = Raised ValueError"
proof -
  have a: "py_int lim ''1'' = Returned 1"
    by (auto simp: py_int_decimal is_decimal_def over_limit_def nat_of_digits_def digit_val_def)
  have b: "py_int lim ''3,5'' = Raised ValueError"
    by (simp add: py_int_def Let_def strip_int_space_def int_space_def is_decimal_def)
  show ?thesis
    by (simp add: unpack_start_end_def bind_def a b)
qed

lemma main_round_indices_hyphen:
  "main_round lim w ''https://www.youtube.com/playlist?list=PL1'' prefs_indices_hyphen =
     ([Mkdir ''downloads''], Raised (case mkdir w ''downloads'' of None \<Rightarrow> ValueError | Some e \<Rightarrow> e))"
proof -
  have "is_playlist ''https://www.youtube.com/playlist?list=PL1''"
    by (simp add: is_playlist_def)
  moreover have "truthy (dict_get prefs_indices_hyphen ''playlist_options'')"
    by (simp add: prefs_indices_hyphen_def dict_get_def truthy_def)
  moreover have "dict_item prefs_indices_hyphen ''download_type'' = Returned (PyStr ''Video with Audio'')"
    "dict_item prefs_indices_hyphen ''quality'' = Returned (PyStr ''best'')"
    "dict_item prefs_indices_hyphen ''url'' = Returned (PyStr ''https://www.youtube.com/playlist?list=PL1'')"
    "dict_item prefs_indices_hyphen ''output_path'' = Returned (PyStr ''downloads'')"
    by (simp_all add: prefs_indices_hyphen_def dict_item_def)
  moreover have "set_playlist_items lim (Some ''1-3,5'') opts = Raised ValueError" for opts
    using unpack_1_3_5 [of lim] by (simp add: set_playlist_items_def truthy_def bind_def)
  ultimately show ?thesis
    by (cases "mkdir w ''downloads''")
       (simp_all add: main_round_def prefs_indices_hyphen_descriptor download_videos_def
          prepare_def make_output_dir_def run_defs)
qed

text \<open>
  Claim C9. A selection text that contains a hyphen is split at the hyphens and its parts
  are converted to integers before the \<^verbatim>\<open>try\<close>: when the conversion or the unpacking
  fails, \<open>download_videos\<close> ends with that \<^verbatim>\<open>ValueError\<close> right after creating the
  directory, with nothing logged and the library never called; when it succeeds, the two
  numbers become \<open>playliststart\<close> and \<open>playlistend\<close>. The collector can return the mode
  \<open>Specific videos\<close> with the text \<open>1-3,5\<close>; the descriptor is then \<open>1-3,5\<close>, and the round
  of \<open>main\<close> ends with an exception: the \<^verbatim>\<open>ValueError\<close>, or the error of the directory
  creation before it.
\<close>

theorem hyphen_selection_raises_outside_try:
  "(py_in ''-'' items \<and> mkdir w out = None
      \<and> unpack_start_end lim (py_split (CHR ''-'') items) = Raised e
    \<longrightarrow> download_videos lim w url (PyStr out) quality audio_only audio_format (Some items) =
          ([Mkdir out], Raised e) \<and> e = ValueError)
   \<and> (py_in ''-'' items \<and> unpack_start_end lim (py_split (CHR ''-'') items) = Returned (a, b)
    \<longrightarrow> set_playlist_items lim (Some items) opts =
          Returned (opts\<lparr>playliststart := Some a, playlistend := Some b\<rparr>))
   \<and> get_user_input (urllib_urlparse (\<lambda>h. None)) True prefs_indices_hyphen
   \<and> get_playlist_config lim prefs_indices_hyphen = Returned (Some ''1-3,5'')
   \<and> main_round lim w ''https://www.youtube.com/playlist?list=PL1'' prefs_indices_hyphen =
       ([Mkdir ''downloads''],
        Raised (case mkdir w ''downloads'' of None \<Rightarrow> ValueError | Some e \<Rightarrow> e))"
proof (intro conjI impI)
  assume h: "py_in ''-'' items \<and> mkdir w out = None
      \<and> unpack_start_end lim (py_split (CHR ''-'') items) = Raised e"
  then have "truthy (Some items)" using py_in_not_empty by blast
  then have "set_playlist_items lim (Some items) opts' = Raised e" for opts'
    using h by (simp add: set_playlist_items_def bind_def)
  then show "download_videos lim w url (PyStr out) quality audio_only audio_format (Some items) =
          ([Mkdir out], Raised e)"
    using h by (simp add: download_videos_def prepare_def make_output_dir_def run_defs)
  show "e = ValueError" using h unpack_raises_ValueError by blast
next
  assume h: "py_in ''-'' items \<and> unpack_start_end lim (py_split (CHR ''-'') items) = Returned (a, b)"
  then have "truthy (Some items)" using py_in_not_empty by blast
  then show "set_playlist_items lim (Some items) opts =
          Returned (opts\<lparr>playliststart := Some a, playlistend := Some b\<rparr>)"
    using h by (simp add: set_playlist_items_def bind_def)
qed (rule prefs_indices_hyphen_producible prefs_indices_hyphen_descriptor main_round_indices_hyphen)+

theorem hyphen_selection_raises_outside_try_witness:
  "download_videos 4300 (world_ok ''y'') (PyStr ''u'') (PyStr ''downloads'') (PyStr ''best'') False
      (PyStr ''mp3'') (Some ''1-3,5'') = ([Mkdir ''downloads''], Raised ValueError)
   \<and> set_playlist_items 4300 (Some ''2-4'') (initial_opts ''downloads'' False (PyStr ''mp3'')) =
       Returned ((initial_opts ''downloads'' False (PyStr ''mp3''))
                   \<lparr>playliststart := Some 2, playlistend := Some 4\<rparr>)
   \<and> main_round 4300 (world_ok ''y'') ''https://www.youtube.com/playlist?list=PL1''
        prefs_indices_hyphen = ([Mkdir ''downloads''], Raised ValueError)"
proof -
  have u: "unpack_start_end 4300 (py_split (CHR ''-'') ''2-4'') = Returned (2, 4)"
    by (simp add: unpack_start_end_def bind_def int_defs)
  show ?thesis
    using hyphen_selection_raises_outside_try [of "''1-3,5''" "world_ok ''y''" "''downloads''" 4300
        ValueError "PyStr ''u''" "PyStr ''best''" False "PyStr ''mp3''" 2 4
        "initial_opts ''downloads'' False (PyStr ''mp3'')"]
      hyphen_selection_raises_outside_try [of "''2-4''" "world_ok ''y''" "''downloads''" 4300
        ValueError "PyStr ''u''" "PyStr ''best''" False "PyStr ''mp3''" 2 4
        "initial_opts ''downloads'' False (PyStr ''mp3'')"]
      u unpack_1_3_5 [of 4300]
    by (simp add: world_ok_def)
qed

section \<open>The affirmative answer\<close>

lemma char_of_121: "(char_of (121::nat) :: char) = CHR ''y''"
proof -
  have "(char_of (of_char (CHR ''y'') :: nat) :: char) = CHR ''y''"
    by (simp only: char_of_char)
  then show ?thesis
    by simp
qed

lemma lower_char_y: "lower_char c = CHR ''y'' \<longleftrightarrow> c = CHR ''y'' \<or> c = CHR ''Y''"
proof
  assume h: "lower_char c = CHR ''y''"
  define n where "n = (of_char c :: nat)"
  show "c = CHR ''y'' \<or> c = CHR ''Y''"
  proof (cases "(65 \<le> n \<and> n \<le> 90) \<or> (192 \<le> n \<and> n \<le> 222 \<and> n \<noteq> 215)")
    case True
    then have "char_of (n + 32) = CHR ''y''"
      using h by (simp add: lower_char_def n_def)
    then have "(of_char (char_of (n + 32) :: char) :: nat) = of_char (CHR ''y'')"
      by simp
    then have m: "(n + 32) mod 256 = 121"
      by simp
    have "n + 32 < 256"
      using True by linarith
    then have "(n + 32) mod 256 = n + 32"
      by (rule mod_less)
    then have "n = 89"
      using m by linarith
    then have "(of_char c :: nat) = of_char (CHR ''Y'')"
      by (simp add: n_def)
    then have "c = CHR ''Y''"
      by (simp only: of_char_eq_iff)
    then show ?thesis
      by blast
  next
    case False
    then have "lower_char c = c"
      unfolding lower_char_def Let_def n_def by (rule if_not_P)
    then show ?thesis
      using h by simp
  qed
next
  assume "c = CHR ''y'' \<or> c = CHR ''Y''"
  then show "lower_char c = CHR ''y''"
    by (auto simp: lower_char_def char_of_121)
qed

lemma lower_is_y: "lower answer = ''y'' \<longleftrightarrow> answer = ''y'' \<or> answer = ''Y''"
  by (cases answer) (auto simp: lower_def lower_char_y)


section \<open>The steps of \<open>download_videos\<close>\<close>

lemma prepare_events: "prepare lim w output_path audio_only audio_format items = (t0, r) \<Longrightarrow> Download us \<notin> set t0"
  by (auto simp: prepare_def make_output_dir_def run_defs
      split: pyval.splits option.splits outcome.splits)

lemma summary_events: "summary probed items = (ts, r) \<Longrightarrow> Download us \<notin> set ts"
  by (auto simp: summary_def run_defs minutes_seconds_def
      split: option.splits outcome.splits duration.splits if_splits)

lemma summary_raises_Exception: "summary probed items = (ts, Raised x) \<Longrightarrow> is_Exception x"
  by (auto simp: summary_def run_defs minutes_seconds_def
      split: option.splits outcome.splits duration.splits if_splits)

lemma probe_raised:
  "extract_info w opts url = Raised e \<Longrightarrow>
   probe_confirm_download w opts url items = ([Extract_info url], Raised e)"
  by (simp add: probe_confirm_download_def seq_def)

lemma probe_summary_raised:
  "extract_info w opts url = Returned probed \<Longrightarrow> summary probed items = (ts, Raised x) \<Longrightarrow>
   probe_confirm_download w opts url items = (Extract_info url # ts, Raised x)"
  by (simp add: probe_confirm_download_def seq_def)

lemma probe_input_raised:
  "extract_info w opts url = Returned probed \<Longrightarrow> summary probed items = (ts, Returned ()) \<Longrightarrow>
   user_input w = Raised x \<Longrightarrow>
   probe_confirm_download w opts url items = (Extract_info url # ts @ [Input], Raised x)"
  by (simp add: probe_confirm_download_def seq_def)

lemma probe_cancelled:
  "extract_info w opts url = Returned probed \<Longrightarrow> summary probed items = (ts, Returned ()) \<Longrightarrow>
   user_input w = Returned answer \<Longrightarrow> lower answer \<noteq> ''y'' \<Longrightarrow>
   probe_confirm_download w opts url items =
     (Extract_info url # ts @ [Input, Log Info_Download_cancelled_by_user], Returned (Some False))"
  by (simp add: probe_confirm_download_def run_defs)

lemma probe_confirmed:
  "extract_info w opts url = Returned probed \<Longrightarrow> summary probed items = (ts, Returned ()) \<Longrightarrow>
   user_input w = Returned answer \<Longrightarrow> lower answer = ''y'' \<Longrightarrow>
   probe_confirm_download w opts url items =
     (Extract_info url # ts @ [Input, Download [url]],
      case download w opts [url] of Some e \<Rightarrow> Raised e | None \<Rightarrow> Returned None)"
  by (cases "download w opts [url]") (simp_all add: probe_confirm_download_def run_defs)

lemma attempt_opened:
  assumes "ydl_open w opts = None"
    and "probe_confirm_download w opts url items = (t, r)"
  shows "attempt w opts url items =
     (case closing w r of
        Raised e \<Rightarrow>
          if is_Exception e
          then (Log (Info_Starting_download_from url) # Open opts # t
                  @ [Close, Log (Error_An_error_occurred e)], Returned False)
          else (Log (Info_Starting_download_from url) # Open opts # t @ [Close], Raised e)
      | Returned (Some b) \<Rightarrow>
          (Log (Info_Starting_download_from url) # Open opts # t @ [Close], Returned b)
      | Returned None \<Rightarrow>
          (Log (Info_Starting_download_from url) # Open opts # t
             @ [Close, Log Info_Download_completed_successfully], Returned True))"
  using assms
  by (cases r; cases "ydl_close w")
     (auto simp: attempt_def with_YoutubeDL_def try_except_Exception_def run_defs closing_def
        split: option.splits)

lemma attempt_not_opened:
  assumes "ydl_open w opts = Some e"
  shows "attempt w opts url items =
     (if is_Exception e
      then ([Log (Info_Starting_download_from url), Open opts, Log (Error_An_error_occurred e)],
            Returned False)
      else ([Log (Info_Starting_download_from url), Open opts], Raised e))"
  using assms
  by (simp add: attempt_def with_YoutubeDL_def try_except_Exception_def run_defs)

lemma download_videos_prepared:
  assumes "prepare lim w output_path audio_only audio_format items = (t0, Returned opts)"
    and "attempt w opts url items = (t, r)"
  shows "download_videos lim w url output_path quality audio_only audio_format items = (t0 @ t, r)"
  using assms by (simp add: download_videos_def seq_def)


section \<open>Errors of the extraction library\<close>

text \<open>
  Claim C3. Once the lines before the \<^verbatim>\<open>try\<close> have produced the configuration, an
  \<^verbatim>\<open>Exception\<close> that the library raises in the probe, or in the download after the user
  has confirmed, is caught: \<open>download_videos\<close> logs an error and returns \<open>False\<close>, and when
  the probe raised, no download call is among the events. The error logged is the one
  raised, unless the library's exit raises another one while the block is left. More
  generally, when whatever the library and the prompt raise is an \<^verbatim>\<open>Exception\<close>,
  \<open>download_videos\<close> returns a boolean: nothing is propagated.
\<close>

theorem library_errors_are_caught:
  assumes prepared: "prepare lim w output_path audio_only audio_format items = (t0, Returned opts)"
    and closes: "only_Exception (ydl_close w)"
    and exception: "is_Exception e"
  shows "(ydl_open w opts = None \<and> extract_info w opts url = Raised e \<longrightarrow>
            download_videos lim w url output_path quality audio_only audio_format items =
              (t0 @ [Log (Info_Starting_download_from url), Open opts, Extract_info url, Close,
                     Log (Error_An_error_occurred (case ydl_close w of None \<Rightarrow> e | Some c \<Rightarrow> c))],
               Returned False)
            \<and> (\<forall>us. Download us \<notin> set (fst (download_videos lim w url output_path quality
                                                  audio_only audio_format items))))
       \<and> (ydl_open w opts = None \<and> extract_info w opts url = Returned probed
            \<and> summary probed items = (ts, Returned ()) \<and> user_input w = Returned answer
            \<and> lower answer = ''y'' \<and> download w opts [url] = Some e \<longrightarrow>
            download_videos lim w url output_path quality audio_only audio_format items =
              (t0 @ [Log (Info_Starting_download_from url), Open opts, Extract_info url] @ ts
                  @ [Input, Download [url], Close,
                     Log (Error_An_error_occurred (case ydl_close w of None \<Rightarrow> e | Some c \<Rightarrow> c))],
               Returned False))
       \<and> (only_Exception (ydl_open w opts)
            \<and> (\<forall>x. extract_info w opts url = Raised x \<longrightarrow> is_Exception x)
            \<and> (\<forall>x. user_input w = Raised x \<longrightarrow> is_Exception x)
            \<and> only_Exception (download w opts [url]) \<longrightarrow>
            (\<exists>b. snd (download_videos lim w url output_path quality audio_only audio_format items)
                    = Returned b))"
proof (intro conjI impI)
  assume h: "ydl_open w opts = None \<and> extract_info w opts url = Raised e"
  then have p: "probe_confirm_download w opts url items = ([Extract_info url], Raised e)"
    by (simp add: probe_raised)
  have "attempt w opts url items =
          ([Log (Info_Starting_download_from url), Open opts, Extract_info url, Close,
            Log (Error_An_error_occurred (case ydl_close w of None \<Rightarrow> e | Some c \<Rightarrow> c))],
           Returned False)"
    using attempt_opened [OF _ p] h closes exception
    by (cases "ydl_close w") (simp_all add: closing_def only_Exception_def)
  from download_videos_prepared [OF prepared this]
  show r: "download_videos lim w url output_path quality audio_only audio_format items =
              (t0 @ [Log (Info_Starting_download_from url), Open opts, Extract_info url, Close,
                     Log (Error_An_error_occurred (case ydl_close w of None \<Rightarrow> e | Some c \<Rightarrow> c))],
               Returned False)" .
  show "\<forall>us. Download us \<notin> set (fst (download_videos lim w url output_path quality
                                                  audio_only audio_format items))"
    using prepare_events [OF prepared] by (simp add: r)
next
  assume h: "ydl_open w opts = None \<and> extract_info w opts url = Returned probed
            \<and> summary probed items = (ts, Returned ()) \<and> user_input w = Returned answer
            \<and> lower answer = ''y'' \<and> download w opts [url] = Some e"
  then have p: "probe_confirm_download w opts url items =
                  (Extract_info url # ts @ [Input, Download [url]], Raised e)"
    using probe_confirmed [of w opts url probed items ts answer] by simp
  have "attempt w opts url items =
          ([Log (Info_Starting_download_from url), Open opts, Extract_info url] @ ts
              @ [Input, Download [url], Close,
                 Log (Error_An_error_occurred (case ydl_close w of None \<Rightarrow> e | Some c \<Rightarrow> c))],
           Returned False)"
    using attempt_opened [OF _ p] h closes exception
    by (cases "ydl_close w") (simp_all add: closing_def only_Exception_def)
  from download_videos_prepared [OF prepared this]
  show "download_videos lim w url output_path quality audio_only audio_format items =
              (t0 @ [Log (Info_Starting_download_from url), Open opts, Extract_info url] @ ts
                  @ [Input, Download [url], Close,
                     Log (Error_An_error_occurred (case ydl_close w of None \<Rightarrow> e | Some c \<Rightarrow> c))],
               Returned False)" .
next
  assume h: "only_Exception (ydl_open w opts)
            \<and> (\<forall>x. extract_info w opts url = Raised x \<longrightarrow> is_Exception x)
            \<and> (\<forall>x. user_input w = Raised x \<longrightarrow> is_Exception x)
            \<and> only_Exception (download w opts [url])"
  have "\<exists>b. snd (attempt w opts url items) = Returned b"
  proof (cases "ydl_open w opts")
    case (Some x)
    then show ?thesis
      using h by (auto simp: attempt_not_opened only_Exception_def)
  next
    case None
    obtain t r where p: "probe_confirm_download w opts url items = (t, r)"
      by (cases "probe_confirm_download w opts url items")
    have body: "is_Exception x" if "r = Raised x" for x
    proof (cases "extract_info w opts url")
      case (Raised y)
      then show ?thesis using p that h by (simp add: probe_raised)
    next
      case (Returned probed)
      obtain ts s where s: "summary probed items = (ts, s)"
        by (cases "summary probed items")
      show ?thesis
      proof (cases s)
        case (Raised y)
        then show ?thesis
          using p that s Returned summary_raises_Exception [of probed items ts y]
          by (simp add: probe_summary_raised)
      next
        case u: (Returned u)
        show ?thesis
        proof (cases "user_input w")
          case (Raised y)
          then show ?thesis
            using p that s u Returned h by (simp add: probe_input_raised)
        next
          case a: (Returned answer)
          show ?thesis
          proof (cases "lower answer = ''y''")
            case True
            then show ?thesis
              using p that s u Returned a h
              by (cases "download w opts [url]") (simp_all add: probe_confirmed only_Exception_def)
          next
            case False
            then show ?thesis
              using p that s u Returned a by (simp add: probe_cancelled)
          qed
        qed
      qed
    qed
    have "is_Exception x" if "closing w r = Raised x" for x
      using that body closes
      by (cases "ydl_close w") (simp_all add: closing_def only_Exception_def)
    then show ?thesis
      using attempt_opened [OF None p]
      by (cases "closing w r") (auto split: option.splits)
  qed
  then obtain t' b where a: "attempt w opts url items = (t', Returned b)"
    by (cases "attempt w opts url items") auto
  have "snd (download_videos lim w url output_path quality audio_only audio_format items)
               = Returned b"
    using download_videos_prepared [OF prepared a] by simp
  then show "\<exists>b. snd (download_videos lim w url output_path quality audio_only audio_format items)
                    = Returned b"
    by blast
qed


lemma prepare_downloads:
  "mkdir w ''downloads'' = None \<Longrightarrow>
   prepare lim w (PyStr ''downloads'') audio_only audio_format None =
     ([Mkdir ''downloads''], Returned (initial_opts ''downloads'' audio_only audio_format))"
  by (simp add: prepare_def make_output_dir_def run_defs set_playlist_items_def truthy_def)

lemma summary_video_info:
  "summary (Some video_info) None =
     ([Log (Info_Title (PyStr ''Video'')), Log (Info_Duration 2 5)], Returned ())"
  by (simp add: summary_def video_info_def run_defs get_default_def minutes_seconds_def truthy_def)

theorem library_errors_are_caught_witness:
  "download_videos 4300 world_probe_fails (PyStr ''https://www.youtube.com/watch?v=abc'')
      (PyStr ''downloads'') (PyStr ''720p'') False (PyStr ''mp3'') None =
     ([Mkdir ''downloads'',
       Log (Info_Starting_download_from (PyStr ''https://www.youtube.com/watch?v=abc'')),
       Open (initial_opts ''downloads'' False (PyStr ''mp3'')),
       Extract_info (PyStr ''https://www.youtube.com/watch?v=abc''), Close,
       Log (Error_An_error_occurred (DownloadError ''Video unavailable''))],
      Returned False)
   \<and> download_videos 4300 world_download_fails (PyStr ''https://www.youtube.com/watch?v=abc'')
        (PyStr ''downloads'') (PyStr ''720p'') False (PyStr ''mp3'') None =
       ([Mkdir ''downloads'',
         Log (Info_Starting_download_from (PyStr ''https://www.youtube.com/watch?v=abc'')),
         Open (initial_opts ''downloads'' False (PyStr ''mp3'')),
         Extract_info (PyStr ''https://www.youtube.com/watch?v=abc''),
         Log (Info_Title (PyStr ''Video'')), Log (Info_Duration 2 5), Input,
         Download [PyStr ''https://www.youtube.com/watch?v=abc''], Close,
         Log (Error_An_error_occurred (DownloadError ''Connection reset''))],
        Returned False)"
proof -
  have p1: "prepare 4300 world_probe_fails (PyStr ''downloads'') False (PyStr ''mp3'') None =
      ([Mkdir ''downloads''], Returned (initial_opts ''downloads'' False (PyStr ''mp3'')))"
    by (rule prepare_downloads) (simp add: world_probe_fails_def world_ok_def)
  have p2: "prepare 4300 world_download_fails (PyStr ''downloads'') False (PyStr ''mp3'') None =
      ([Mkdir ''downloads''], Returned (initial_opts ''downloads'' False (PyStr ''mp3'')))"
    by (rule prepare_downloads) (simp add: world_download_fails_def world_ok_def)
  have c1: "only_Exception (ydl_close world_probe_fails)"
    and c2: "only_Exception (ydl_close world_download_fails)"
    by (simp_all add: only_Exception_def world_probe_fails_def world_download_fails_def world_ok_def)
  have e1: "is_Exception (DownloadError ''Video unavailable'')"
    and e2: "is_Exception (DownloadError ''Connection reset'')"
    by simp_all
  have y: "lower ''y'' = ''y''"
    by (simp add: lower_is_y)
  show ?thesis
    using library_errors_are_caught [OF p1 c1 e1,
        where url = "PyStr ''https://www.youtube.com/watch?v=abc''" and quality = "PyStr ''720p''"
          and probed = "Some video_info"
          and ts = "[Log (Info_Title (PyStr ''Video'')), Log (Info_Duration 2 5)]"
          and answer = "''y''"]
      library_errors_are_caught [OF p2 c2 e2,
        where url = "PyStr ''https://www.youtube.com/watch?v=abc''" and quality = "PyStr ''720p''"
          and probed = "Some video_info"
          and ts = "[Log (Info_Title (PyStr ''Video'')), Log (Info_Duration 2 5)]"
          and answer = "''y''"]
      summary_video_info y
    by (simp add: world_probe_fails_def world_download_fails_def world_ok_def)
qed

lemma probe_download_event:
  assumes "Download us \<in> set (fst (probe_confirm_download w opts url items))"
  shows "\<exists>answer. user_input w = Returned answer \<and> lower answer = ''y''"
proof (cases "extract_info w opts url")
  case (Raised y)
  then show ?thesis using assms by (simp add: probe_raised)
next
  case (Returned probed)
  obtain ts s where s: "summary probed items = (ts, s)"
    by (cases "summary probed items")
  have ts: "Download us \<notin> set ts" using summary_events [OF s] .
  show ?thesis
  proof (cases s)
    case (Raised y)
    then show ?thesis
      using assms s Returned ts by (simp add: probe_summary_raised)
  next
    case u: (Returned u)
    show ?thesis
    proof (cases "user_input w")
      case (Raised y)
      then show ?thesis
        using assms s u Returned ts by (simp add: probe_input_raised)
    next
      case a: (Returned answer)
      show ?thesis
      proof (cases "lower answer = ''y''")
        case True
        then show ?thesis using a by blast
      next
        case False
        then show ?thesis
          using assms s u Returned a ts by (simp add: probe_cancelled)
      qed
    qed
  qed
qed

lemma attempt_download_event:
  assumes "Download us \<in> set (fst (attempt w opts url items))"
  shows "Download us \<in> set (fst (probe_confirm_download w opts url items))"
proof (cases "ydl_open w opts")
  case (Some x)
  then show ?thesis using assms by (simp add: attempt_not_opened split: if_splits)
next
  case None
  obtain t r where p: "probe_confirm_download w opts url items = (t, r)"
    by (cases "probe_confirm_download w opts url items")
  show ?thesis
    using assms attempt_opened [OF None p] p
    by (cases "closing w r") (auto split: option.splits if_splits)
qed

lemma download_videos_download_event:
  assumes "Download us \<in> set (fst (download_videos lim w url output_path quality audio_only
                                      audio_format items))"
  shows "\<exists>answer. user_input w = Returned answer \<and> lower answer = ''y''"
proof -
  obtain t0 r0 where p: "prepare lim w output_path audio_only audio_format items = (t0, r0)"
    by (cases "prepare lim w output_path audio_only audio_format items")
  have t0: "Download us \<notin> set t0" using prepare_events [OF p] .
  show ?thesis
  proof (cases r0)
    case (Raised x)
    then show ?thesis
      using assms p t0 by (simp add: download_videos_def seq_def)
  next
    case (Returned opts)
    obtain t r where a: "attempt w opts url items = (t, r)"
      by (cases "attempt w opts url items")
    have "Download us \<in> set t"
      using assms download_videos_prepared [OF p [unfolded Returned] a] t0 by simp
    then have "Download us \<in> set (fst (attempt w opts url items))"
      using a by simp
    then show ?thesis
      using attempt_download_event probe_download_event by blast
  qed
qed

section \<open>The confirmation gate\<close>

text \<open>
  Claim C5. After a successful probe, an answer whose lower-case form is not \<open>y\<close> makes
  \<open>download_videos\<close> return \<open>False\<close> with no download call among its events (the library's
  exit raising at most an \<^verbatim>\<open>Exception\<close>). In every run, a download call among the events
  means that the user answered and that the lower-case form of the answer is \<open>y\<close>. The
  answers with that lower-case form are \<open>y\<close> and \<open>Y\<close>.
\<close>

theorem confirmation_gate:
  "(prepare lim w output_path audio_only audio_format items = (t0, Returned opts)
      \<and> ydl_open w opts = None \<and> extract_info w opts url = Returned probed
      \<and> user_input w = Returned answer \<and> lower answer \<noteq> ''y''
      \<and> only_Exception (ydl_close w)
    \<longrightarrow> snd (download_videos lim w url output_path quality audio_only audio_format items)
          = Returned False
        \<and> (\<forall>us. Download us \<notin> set (fst (download_videos lim w url output_path quality
                                              audio_only audio_format items))))
   \<and> (Download us \<in> set (fst (download_videos lim w url output_path quality audio_only
                                  audio_format items))
    \<longrightarrow> (\<exists>a. user_input w = Returned a \<and> lower a = ''y''))
   \<and> (lower answer = ''y'' \<longleftrightarrow> answer = ''y'' \<or> answer = ''Y'')"
proof (intro conjI impI)
  assume h: "prepare lim w output_path audio_only audio_format items = (t0, Returned opts)
      \<and> ydl_open w opts = None \<and> extract_info w opts url = Returned probed
      \<and> user_input w = Returned answer \<and> lower answer \<noteq> ''y''
      \<and> only_Exception (ydl_close w)"
  obtain t r where p: "probe_confirm_download w opts url items = (t, r)"
    by (cases "probe_confirm_download w opts url items")
  obtain ts s where s: "summary probed items = (ts, s)"
    by (cases "summary probed items")
  have r: "r = Returned (Some False) \<or> (\<exists>x. r = Raised x \<and> is_Exception x)"
  proof (cases s)
    case (Raised y)
    then show ?thesis
      using p s h summary_raises_Exception [of probed items ts y]
      by (auto simp: probe_summary_raised)
  next
    case (Returned u)
    then show ?thesis
      using p s h by (auto simp: probe_cancelled)
  qed
  have "snd (attempt w opts url items) = Returned False"
    using attempt_opened [OF _ p] h r
    by (cases "ydl_close w") (auto simp: closing_def only_Exception_def)
  then obtain t' where a: "attempt w opts url items = (t', Returned False)"
    by (cases "attempt w opts url items") auto
  show "snd (download_videos lim w url output_path quality audio_only audio_format items)
          = Returned False"
    using download_videos_prepared [OF _ a] h by simp
  show "\<forall>us. Download us \<notin> set (fst (download_videos lim w url output_path quality
                                              audio_only audio_format items))"
    using download_videos_download_event [of _ lim w url output_path quality audio_only
        audio_format items] h
    by auto
next
  assume "Download us \<in> set (fst (download_videos lim w url output_path quality audio_only
                                  audio_format items))"
  then show "\<exists>a. user_input w = Returned a \<and> lower a = ''y''"
    by (rule download_videos_download_event)
next
  show "lower answer = ''y'' \<longleftrightarrow> answer = ''y'' \<or> answer = ''Y''"
    by (rule lower_is_y)
qed

section \<open>Runs in the world where everything succeeds\<close>

lemma attempt_world_ok:
  "attempt (world_ok answer) opts url None =
     (if lower answer \<noteq> ''y''
      then ([Log (Info_Starting_download_from url), Open opts, Extract_info url,
             Log (Info_Title (PyStr ''Video'')), Log (Info_Duration 2 5), Input,
             Log Info_Download_cancelled_by_user, Close], Returned False)
      else ([Log (Info_Starting_download_from url), Open opts, Extract_info url,
             Log (Info_Title (PyStr ''Video'')), Log (Info_Duration 2 5), Input,
             Download [url], Close, Log Info_Download_completed_successfully], Returned True))"
proof (cases "lower answer = ''y''")
  case True
  have "probe_confirm_download (world_ok answer) opts url None =
          (Extract_info url # [Log (Info_Title (PyStr ''Video'')), Log (Info_Duration 2 5)]
             @ [Input, Download [url]], Returned None)"
    using probe_confirmed [of "world_ok answer" opts url "Some video_info" None _ answer, OF _ summary_video_info _ True]
    by (simp add: world_ok_def)
  from attempt_opened [OF _ this] show ?thesis
    using True by (simp add: world_ok_def closing_def)
next
  case False
  have "probe_confirm_download (world_ok answer) opts url None =
          (Extract_info url # [Log (Info_Title (PyStr ''Video'')), Log (Info_Duration 2 5)]
             @ [Input, Log Info_Download_cancelled_by_user], Returned (Some False))"
    using probe_cancelled [of "world_ok answer" opts url "Some video_info" None _ answer, OF _ summary_video_info _ False]
    by (simp add: world_ok_def)
  from attempt_opened [OF _ this] show ?thesis
    using False by (simp add: world_ok_def closing_def)
qed

lemma download_videos_world_ok:
  "download_videos lim (world_ok answer) url (PyStr ''downloads'') quality audio_only audio_format None =
     (Mkdir ''downloads'' #
        fst (attempt (world_ok answer) (initial_opts ''downloads'' audio_only audio_format) url None),
      snd (attempt (world_ok answer) (initial_opts ''downloads'' audio_only audio_format) url None))"
proof -
  have "prepare lim (world_ok answer) (PyStr ''downloads'') audio_only audio_format None =
     ([Mkdir ''downloads''], Returned (initial_opts ''downloads'' audio_only audio_format))"
    by (rule prepare_downloads) (simp add: world_ok_def)
  from download_videos_prepared [OF this] show ?thesis
    by (cases "attempt (world_ok answer) (initial_opts ''downloads'' audio_only audio_format) url None")
       simp
qed

theorem confirmation_gate_witness:
  "download_videos 4300 (world_ok ''yes'') (PyStr ''https://www.youtube.com/watch?v=abc'')
      (PyStr ''downloads'') (PyStr ''720p'') False (PyStr ''mp3'') None =
     ([Mkdir ''downloads'',
       Log (Info_Starting_download_from (PyStr ''https://www.youtube.com/watch?v=abc'')),
       Open (initial_opts ''downloads'' False (PyStr ''mp3'')),
       Extract_info (PyStr ''https://www.youtube.com/watch?v=abc''),
       Log (Info_Title (PyStr ''Video'')), Log (Info_Duration 2 5), Input,
       Log Info_Download_cancelled_by_user, Close],
      Returned False)
   \<and> lower ''yes'' \<noteq> ''y''
   \<and> user_input (world_ok ''Y'') = Returned ''Y'' \<and> lower ''Y'' = ''y''
   \<and> Download [PyStr ''https://www.youtube.com/watch?v=abc'']
        \<in> set (fst (download_videos 4300 (world_ok ''Y'')
                       (PyStr ''https://www.youtube.com/watch?v=abc'') (PyStr ''downloads'')
                       (PyStr ''720p'') False (PyStr ''mp3'') None))"
proof -
  have n: "lower ''yes'' \<noteq> ''y''" and y: "lower ''Y'' = ''y''"
    by (simp_all add: lower_is_y)
  have p: "prepare 4300 (world_ok ''yes'') (PyStr ''downloads'') False (PyStr ''mp3'') None =
     ([Mkdir ''downloads''], Returned (initial_opts ''downloads'' False (PyStr ''mp3'')))"
    by (rule prepare_downloads) (simp add: world_ok_def)
  have g: "snd (download_videos 4300 (world_ok ''yes'') (PyStr ''https://www.youtube.com/watch?v=abc'')
      (PyStr ''downloads'') (PyStr ''720p'') False (PyStr ''mp3'') None) = Returned False"
    using confirmation_gate [where lim = 4300 and w = "world_ok ''yes''"
        and output_path = "PyStr ''downloads''" and audio_only = False
        and audio_format = "PyStr ''mp3''" and items = None and ?t0.0 = "[Mkdir ''downloads'']"
        and opts = "initial_opts ''downloads'' False (PyStr ''mp3'')"
        and url = "PyStr ''https://www.youtube.com/watch?v=abc''" and probed = "Some video_info"
        and answer = "''yes''" and quality = "PyStr ''720p''"] p n
    by (simp add: world_ok_def only_Exception_def)
  have t1: "download_videos 4300 (world_ok ''yes'') (PyStr ''https://www.youtube.com/watch?v=abc'')
      (PyStr ''downloads'') (PyStr ''720p'') False (PyStr ''mp3'') None =
     ([Mkdir ''downloads'',
       Log (Info_Starting_download_from (PyStr ''https://www.youtube.com/watch?v=abc'')),
       Open (initial_opts ''downloads'' False (PyStr ''mp3'')),
       Extract_info (PyStr ''https://www.youtube.com/watch?v=abc''),
       Log (Info_Title (PyStr ''Video'')), Log (Info_Duration 2 5), Input,
       Log Info_Download_cancelled_by_user, Close],
      Returned False)"
    using n by (simp add: download_videos_world_ok attempt_world_ok)
  have t2: "Download [PyStr ''https://www.youtube.com/watch?v=abc'']
        \<in> set (fst (download_videos 4300 (world_ok ''Y'')
                       (PyStr ''https://www.youtube.com/watch?v=abc'') (PyStr ''downloads'')
                       (PyStr ''720p'') False (PyStr ''mp3'') None))"
    using y by (simp add: download_videos_world_ok attempt_world_ok)
  have u: "user_input (world_ok ''Y'') = Returned ''Y''"
    by (simp add: world_ok_def)
  show ?thesis
    using g t1 t2 u n y by simp
qed

section \<open>The quality tier and the configuration\<close>

text \<open>
  Claim C1, evaluated on the code. A round of \<open>main\<close> for a URL without a collection
  marker, with the preferences video with audio at 720p, a successful probe and the answer
  \<open>y\<close>: the download call is made once, after the prompt, but the format expression of
  the configuration is \<open>bestvideo+bestaudio/best\<close>, with no height in it, not the
  expression \<open>get_format_string\<close> gives for 720p. \<open>download_videos\<close> does the same
  whatever its \<open>quality\<close> argument is.
\<close>

theorem quality_720p_is_not_applied:
  "get_user_input (urllib_urlparse (\<lambda>h. None)) False prefs_video_720p
   \<and> \<not> is_playlist ''https://www.youtube.com/watch?v=abc''
   \<and> main_round 4300 (world_ok ''y'') ''https://www.youtube.com/watch?v=abc'' prefs_video_720p =
       ([Mkdir ''downloads'',
         Log (Info_Starting_download_from (PyStr ''https://www.youtube.com/watch?v=abc'')),
         Open (initial_opts ''downloads'' False (PyStr ''mp3'')),
         Extract_info (PyStr ''https://www.youtube.com/watch?v=abc''),
         Log (Info_Title (PyStr ''Video'')), Log (Info_Duration 2 5), Input,
         Download [PyStr ''https://www.youtube.com/watch?v=abc''], Close,
         Log Info_Download_completed_successfully],
        Returned True)
   \<and> format (initial_opts ''downloads'' False (PyStr ''mp3'')) = ''bestvideo+bestaudio/best''
   \<and> \<not> py_in ''height'' (format (initial_opts ''downloads'' False (PyStr ''mp3'')))
   \<and> get_format_string ''720p'' = ''bestvideo[height<=720]+bestaudio/best[height<=720]''
   \<and> download_videos lim w url output_path quality audio_only audio_format items =
       download_videos lim w url output_path (PyStr ''best'') audio_only audio_format items"
proof -
  have a: "get_user_input (urllib_urlparse (\<lambda>h. None)) False prefs_video_720p"
    by (simp add: prefs_video_720p_def collector_defs urllib_defs)
  have b: "\<not> is_playlist ''https://www.youtube.com/watch?v=abc''"
    by (simp add: is_playlist_def)
  have y: "lower ''y'' = ''y''"
    by (simp add: lower_is_y)
  have c: "main_round 4300 (world_ok ''y'') ''https://www.youtube.com/watch?v=abc'' prefs_video_720p =
       ([Mkdir ''downloads'',
         Log (Info_Starting_download_from (PyStr ''https://www.youtube.com/watch?v=abc'')),
         Open (initial_opts ''downloads'' False (PyStr ''mp3'')),
         Extract_info (PyStr ''https://www.youtube.com/watch?v=abc''),
         Log (Info_Title (PyStr ''Video'')), Log (Info_Duration 2 5), Input,
         Download [PyStr ''https://www.youtube.com/watch?v=abc''], Close,
         Log Info_Download_completed_successfully],
        Returned True)"
    using b y
    by (simp add: main_round_def prefs_video_720p_def dict_item_def run_defs
        download_videos_world_ok attempt_world_ok)
  have d: "format (initial_opts ''downloads'' False (PyStr ''mp3'')) = ''bestvideo+bestaudio/best''"
    by (simp add: initial_opts_def)
  have e: "\<not> py_in ''height'' ''bestvideo+bestaudio/best''"
    by simp
  have f: "get_format_string ''720p'' = ''bestvideo[height<=720]+bestaudio/best[height<=720]''"
    by (simp add: get_format_string_def)
  have g: "download_videos lim w url output_path quality audio_only audio_format items =
       download_videos lim w url output_path (PyStr ''best'') audio_only audio_format items"
    by (simp add: download_videos_def)
  show ?thesis
    using a b c d e f g by simp
qed

end
